theory Spec2Isabelle
  imports Main "HOL-Library.Word"
begin

unbundle bit_operations_syntax

section \<open>The client state (client/bypass/client.cc)\<close>

text \<open>
  C types: \<open>int\<close> file descriptors are 32-bit words (the code masks bits of them);
  \<open>off_t\<close>, \<open>size_t\<close>, \<open>ssize_t\<close> and \<open>ino_t\<close> are 64-bit words, compared signed
  (\<open><s\<close>) or unsigned (\<open><\<close>) as the C expression does. \<open>int\<close> status codes that are
  only tested for their sign are integers.
\<close>

type_synonym fd_t = "32 word"
type_synonym ino_t = "64 word"
type_synonym off_t = "64 word"
type_synonym size_t = "64 word"
type_synonym ssize_t = "64 word"

text \<open>An \<open>inode_info_t *\<close>: the address of an \<open>inode_info_t\<close> object.\<close>

type_synonym addr = nat

text \<open>
  The file-type classification of a descriptor. The code compares \<open>file_type\<close> with
  \<open>FILE_TYPE_BIN_LOG\<close> and \<open>FILE_TYPE_RELAY_LOG\<close> only; the macros' values are not
  part of this source file, so every other value is \<open>FILE_TYPE_OTHER\<close>.
\<close>

datatype file_type_t = FILE_TYPE_BIN_LOG | FILE_TYPE_RELAY_LOG | FILE_TYPE_OTHER

text \<open>
  The bits of \<open>cache_flag\<close>. The masks' values are not part of this source file; the
  flag word is the set of the bits that are on: \<open>cache_flag |= F\<close> inserts \<open>F\<close>, and
  \<open>cache_flag & F\<close> tests membership.
\<close>

datatype cache_flag_bit = FILE_CACHE_WRITE_BACK | FILE_CACHE_WRITE_THROUGH | FILE_CACHE_PRIORITY_HIGH

datatype page_cache = small_page_cache | big_page_cache

text \<open>
  The two structs. A field whose C name would hide a variable of the functions below
  carries the suffix \<open>_of\<close>: \<open>inode\<close>, \<open>size\<close> and \<open>c\<close> of \<open>inode_info_t\<close>;
  \<open>fd\<close>, \<open>flags\<close> and \<open>pos\<close> of \<open>file_t\<close>.
\<close>

record inode_info_t =
  inode_of :: ino_t
  size_of :: size_t
  fd_ref :: int
  cache_flag :: "cache_flag_bit set"
  c_of :: "page_cache option"
  client_id :: "64 word"

record file_t =
  fd_of :: fd_t
  file_type :: file_type_t
  flags_of :: "32 word"
  pos_of :: off_t
  dup_ref :: int
  inode_info :: addr

text \<open>What \<open>cfs_get_file\<close> reports about a freshly opened descriptor.\<close>

record cfs_file_t =
  cf_fd :: fd_t
  cf_file_type :: file_type_t
  cf_flags :: "32 word"
  cf_pos :: off_t
  cf_dup_ref :: int
  cf_inode :: ino_t
  cf_size :: size_t

text \<open>The fields of \<open>struct stat\<close> that the code reads or writes.\<close>

record stat_t =
  st_ino :: ino_t
  st_size :: off_t
  st_mode :: "32 word"

text \<open>
  Calls to collaborators (the storage SDK, libc on the replicate path, the page cache,
  the connection pool, the log), in the order they are made.
\<close>

datatype event =
    E_libc_close fd_t
  | E_cfs_close fd_t
  | E_flush_inode addr
  | E_release_inode_info addr
  | E_libc_truncate off_t
  | E_cfs_truncate string off_t
  | E_cfs_stat string
  | E_libc_ftruncate fd_t off_t
  | E_cfs_ftruncate fd_t off_t
  | E_cfs_lstat string
  | E_cfs_fstat fd_t
  | E_cfs_fstatat fd_t string
  | E_libc_stat
  | E_libc_lstat
  | E_libc_fstat fd_t
  | E_libc_fstatat fd_t
  | E_write_cache addr off_t size_t
  | E_clear_inode_range addr off_t size_t
  | E_cfs_pwrite fd_t size_t off_t
  | E_libc_write fd_t size_t
  | E_libc_pwrite fd_t size_t off_t
  | E_cfs_pwritev fd_t off_t
  | E_libc_writev fd_t
  | E_libc_lseek fd_t off_t int
  | E_libc_read fd_t size_t
  | E_libc_pread fd_t size_t off_t
  | E_libc_readv fd_t
  | E_read_cache addr off_t size_t
  | E_cfs_flush fd_t
  | E_cfs_refresh_eks ino_t
  | E_flush_inode_range addr off_t size_t
  | E_cfs_read_requests fd_t size_t off_t
  | E_memset size_t size_t
  | E_get_conn string int
  | E_write_sock int
  | E_get_read_reply int
  | E_put_conn string int int
  | E_close_sock int
  | E_cfs_pread fd_t size_t off_t
  | E_cfs_preadv fd_t off_t
  | E_find_diff_data off_t size_t
  | E_cfs_flush_log
  | E_exit int

text \<open>
  \<open>g_client_info\<close>, with the memory that holds the \<open>inode_info_t\<close> objects and the
  trace of the calls made so far (oldest first). \<open>g_hook\<close> is the global switch tested
  by every wrapper.
\<close>

record client_info_t =
  g_hook :: bool
  dup_fds :: "fd_t \<rightharpoonup> fd_t"
  open_files :: "fd_t \<rightharpoonup> file_t"
  open_inodes :: "ino_t \<rightharpoonup> addr"
  replicate_path :: string
  cfs_client_id :: "64 word"
  heap :: "addr \<Rightarrow> inode_info_t"
  trace :: "event list"

definition emit :: "event \<Rightarrow> client_info_t \<Rightarrow> client_info_t" where
  "emit e s = s\<lparr>trace := trace s @ [e]\<rparr>"

text \<open>
  Modelled from the spec: \<open>CFS_FD_MASK\<close>, \<open>fd_in_cfs\<close> and \<open>get_cfs_fd\<close> are declared in
  client.h, which is not among the source files. The spec (4.1): a tagged fd has "a
  reserved high bit" set; \<open>is_in_scope\<close> "tests the tag bit"; \<open>resolve\<close> "strips the
  reserved high bit used to tag distributed fds and follows the dup-alias table when
  present". The bit is taken to be bit 30, the highest bit of a non-negative \<open>int\<close>.
\<close>

definition CFS_FD_MASK :: fd_t where
  "CFS_FD_MASK = 0x40000000"

definition fd_in_cfs :: "fd_t \<Rightarrow> bool" where
  "fd_in_cfs fd \<longleftrightarrow> fd AND CFS_FD_MASK \<noteq> 0"

definition get_cfs_fd :: "client_info_t \<Rightarrow> fd_t \<Rightarrow> fd_t" where
  "get_cfs_fd s fd = (case dup_fds s fd of Some d \<Rightarrow> d | None \<Rightarrow> fd AND NOT CFS_FD_MASK)"

text \<open>
  Modelled from the spec: \<open>get_open_file\<close> and \<open>get_open_inode\<close> (client.h) are the
  lookups \<open>get(fd) -> Option<OpenFile>\<close> (4.3) and \<open>lookup_by_inode(inode) ->
  Option<InodeInfo>\<close> (4.2) in the two tables.
\<close>

definition get_open_file :: "client_info_t \<Rightarrow> fd_t \<Rightarrow> file_t option" where
  "get_open_file s fd = open_files s fd"

definition get_open_inode :: "client_info_t \<Rightarrow> ino_t \<Rightarrow> addr option" where
  "get_open_inode s ino = open_inodes s ino"

text \<open>
  Modelled from the spec: \<open>cfs_errno\<close> and \<open>cfs_errno_ssize_t\<close> (client.h) normalise a
  reply of the SDK, "a negative platform error code on failure", "to the calling
  process's errno convention" (6): a negative reply becomes \<open>-1\<close> (the code is stored in
  \<open>errno\<close>, which no function below reads), any other reply is returned as it is.
\<close>

definition cfs_errno :: "int \<Rightarrow> int" where
  "cfs_errno re = (if re < 0 then - 1 else re)"

definition cfs_errno_ssize_t :: "ssize_t \<Rightarrow> ssize_t" where
  "cfs_errno_ssize_t re = (if re <s 0 then - 1 else re)"

text \<open>
  Modelled from the spec: \<open>update_inode_size\<close> (client.h) is not among the source files.
  The spec (4.5): "on any success, update the InodeInfo's cached size to
  \<open>max(old_size, offset + bytes_written)\<close>"; the callers pass \<open>offset + bytes_written\<close>
  (a \<open>size_t\<close>, so the maximum is the unsigned one) and \<open>real_write\<close> logs the value
  returned as the size. The object is the one at address \<open>a\<close>.
\<close>

definition update_inode_size :: "client_info_t \<Rightarrow> addr \<Rightarrow> size_t \<Rightarrow> size_t \<times> client_info_t" where
  "update_inode_size s a sz =
     (let ii = heap s a; sz' = max (size_of ii) sz
      in (sz', s\<lparr>heap := (heap s)(a := ii\<lparr>size_of := sz'\<rparr>)\<rparr>))"

text \<open>\<open>O_APPEND\<close> of fcntl.h on Linux (octal 02000).\<close>

definition O_APPEND :: "32 word" where
  "O_APPEND = 0x400"

text \<open>
  The state right after start-up: nothing is open, no replicate path is configured, and
  the memory holds no object yet (every address reads as zeroes).
\<close>

definition zero_inode_info :: inode_info_t where
  "zero_inode_info = \<lparr>inode_of = 0, size_of = 0, fd_ref = 0, cache_flag = {}, c_of = None, client_id = 0\<rparr>"

definition start_state :: client_info_t where
  "start_state = \<lparr>g_hook = True, dup_fds = Map.empty, open_files = Map.empty,
     open_inodes = Map.empty, replicate_path = [], cfs_client_id = 1,
     heap = (\<lambda>a. zero_inode_info), trace = []\<rparr>"


section \<open>Registering an open inode and an open descriptor\<close>

text \<open>
  Modelled from the spec: \<open>new_inode_info\<close> (the page-cache module) is not among the
  source files. The spec (3): fd-reference is the "number of OpenFile entries pointing
  to" the InodeInfo, which is "created (or its refcount bumped) on first/subsequent open
  of that inode"; so the object built for a first open counts that one descriptor. It
  carries the inode number passed in; \<open>record_inode_info\<close> sets the client id, the size,
  the cache and the policy bits itself.
\<close>

definition new_inode_info :: "ino_t \<Rightarrow> bool \<Rightarrow> inode_info_t" where
  "new_inode_info ino use_pagecache =
     \<lparr>inode_of = ino, size_of = 0, fd_ref = 1, cache_flag = {}, c_of = None, client_id = 0\<rparr>"

definition bump_fd_ref :: "client_info_t \<Rightarrow> addr \<Rightarrow> client_info_t" where
  "bump_fd_ref s a = s\<lparr>heap := (heap s)(a := (heap s a)\<lparr>fd_ref := fd_ref (heap s a) + 1\<rparr>)\<rparr>"

text \<open>
  \<open>record_inode_info\<close> has three parts. The first runs under the read lock of
  \<open>open_inodes_lock\<close>: look the inode up and, if it is there, bump its \<open>fd_ref\<close>.
\<close>

definition record_inode_info_find :: "client_info_t \<Rightarrow> ino_t \<Rightarrow> addr option \<times> client_info_t" where
  "record_inode_info_find s ino =
     (case open_inodes s ino of
        Some a \<Rightarrow> (Some a, bump_fd_ref s a)
      | None \<Rightarrow> (None, s))"

text \<open>
  The second part holds no lock: build the new object, at the address \<open>a\<close> that the
  allocation returned.
\<close>

definition record_inode_info_build ::
  "client_info_t \<Rightarrow> ino_t \<Rightarrow> file_type_t \<Rightarrow> size_t \<Rightarrow> addr \<Rightarrow> client_info_t" where
  "record_inode_info_build s ino ftype sz a =
     (let use_pagecache = (ftype = FILE_TYPE_RELAY_LOG \<or> ftype = FILE_TYPE_BIN_LOG);
          i0 = new_inode_info ino use_pagecache;
          i1 = i0\<lparr>client_id := cfs_client_id s\<rparr>;
          i2 = i1\<lparr>size_of := sz\<rparr>;
          i3 = (if use_pagecache then
                  (let j0 = (if ftype = FILE_TYPE_BIN_LOG \<or> ftype = FILE_TYPE_RELAY_LOG
                             then i2\<lparr>c_of := Some big_page_cache\<rparr>
                             else i2\<lparr>c_of := Some small_page_cache\<rparr>);
                       j1 = j0\<lparr>cache_flag := insert FILE_CACHE_WRITE_BACK (cache_flag j0)\<rparr>
                   in if ftype = FILE_TYPE_RELAY_LOG
                      then j1\<lparr>cache_flag := insert FILE_CACHE_PRIORITY_HIGH (cache_flag j1)\<rparr>
                      else j1)
                else i2)
      in s\<lparr>heap := (heap s)(a := i3)\<rparr>)"

text \<open>
  The third part runs under the write lock: look the inode up again; if it is there
  now, release the object just built and bump the \<open>fd_ref\<close> of the one found;
  otherwise insert the object just built.
\<close>

definition record_inode_info_insert :: "client_info_t \<Rightarrow> ino_t \<Rightarrow> addr \<Rightarrow> addr \<times> client_info_t" where
  "record_inode_info_insert s ino a =
     (case open_inodes s ino of
        Some w \<Rightarrow> (w, bump_fd_ref (emit (E_release_inode_info a) s) w)
      | None \<Rightarrow> (a, s\<lparr>open_inodes := (open_inodes s)(ino \<mapsto> a)\<rparr>))"

text \<open>
  The whole function, run by one thread without interference. \<open>new\<close> is the address
  returned by the allocation inside \<open>new_inode_info\<close>, or \<open>None\<close> for \<open>NULL\<close>.
\<close>

definition record_inode_info ::
  "client_info_t \<Rightarrow> ino_t \<Rightarrow> file_type_t \<Rightarrow> size_t \<Rightarrow> addr option \<Rightarrow> addr option \<times> client_info_t" where
  "record_inode_info s ino ftype sz new =
     (case record_inode_info_find s ino of
        (Some a, s1) \<Rightarrow> (Some a, s1)
      | (None, s1) \<Rightarrow>
          (case new of
             None \<Rightarrow> (None, s1)
           | Some a \<Rightarrow>
               (let s2 = record_inode_info_build s1 ino ftype sz a;
                    (w, s3) = record_inode_info_insert s2 ino a
                in (Some w, s3))))"

text \<open>
  \<open>record_open_file\<close>; \<open>calloc_ok\<close> tells whether the allocation of the \<open>file_t\<close>
  succeeded.
\<close>

definition record_open_file ::
  "client_info_t \<Rightarrow> cfs_file_t \<Rightarrow> bool \<Rightarrow> addr option \<Rightarrow> int \<times> client_info_t" where
  "record_open_file s cfs_file calloc_ok new =
     (if \<not> calloc_ok then (- 1, s)
      else
        (case record_inode_info s (cf_inode cfs_file) (cf_file_type cfs_file) (cf_size cfs_file) new of
           (None, s1) \<Rightarrow> (- 1, s1)
         | (Some a, s1) \<Rightarrow>
             (let f = \<lparr>fd_of = cf_fd cfs_file, file_type = cf_file_type cfs_file,
                       flags_of = cf_flags cfs_file, pos_of = cf_pos cfs_file,
                       dup_ref = cf_dup_ref cfs_file, inode_info = a\<rparr>
              in (0, s1\<lparr>open_files := (open_files s1)(fd_of f \<mapsto> f)\<rparr>))))"

text \<open>
  A small reachable state for the examples: descriptor 3 is open on inode 7 (a file of
  10 bytes that is neither a binlog nor a relay log), with its \<open>inode_info_t\<close> at
  address 100.
\<close>

definition example_file :: cfs_file_t where
  "example_file = \<lparr>cf_fd = 3, cf_file_type = FILE_TYPE_OTHER, cf_flags = 0, cf_pos = 0,
     cf_dup_ref = 1, cf_inode = 7, cf_size = 10\<rparr>"

definition one_open :: client_info_t where
  "one_open = snd (record_open_file start_state example_file True (Some 100))"

definition the_file :: file_t where
  "the_file = \<lparr>fd_of = 3, file_type = FILE_TYPE_OTHER, flags_of = 0, pos_of = 0,
     dup_ref = 1, inode_info = 100\<rparr>"

definition the_inode :: inode_info_t where
  "the_inode = \<lparr>inode_of = 7, size_of = 10, fd_ref = 1, cache_flag = {}, c_of = None,
     client_id = 1\<rparr>"




section \<open>Closing a descriptor\<close>

text \<open>
  \<open>close_cfs_fd\<close>. \<open>libc_re\<close> is what \<open>libc_close\<close> answers and \<open>cfs_re\<close> what
  \<open>cfs_close\<close> answers, if they are called. The descriptor is first resolved: through
  the dup-alias table, whose entry is erased, or else by stripping the tag bit.
\<close>

definition close_resolve :: "client_info_t \<Rightarrow> fd_t \<Rightarrow> fd_t \<times> client_info_t" where
  "close_resolve s fd0 =
     (case dup_fds s fd0 of
        Some d \<Rightarrow> (d, s\<lparr>dup_fds := (dup_fds s)(fd0 := None)\<rparr>)
      | None \<Rightarrow> (fd0 AND NOT CFS_FD_MASK, s))"

definition close_cfs_fd :: "client_info_t \<Rightarrow> fd_t \<Rightarrow> int \<Rightarrow> int \<Rightarrow> int \<times> client_info_t" where
  "close_cfs_fd s fd0 libc_re cfs_re =
     (let (fd, s1) = close_resolve s fd0 in
      case open_files s1 fd of
        None \<Rightarrow> (0, s1)
      | Some f \<Rightarrow>
          let f' = f\<lparr>dup_ref := dup_ref f - 1\<rparr>;
              s2 = s1\<lparr>open_files := (open_files s1)(fd \<mapsto> f')\<rparr>
          in
          if dup_ref f' \<noteq> 0 then (0, s2)
          else if replicate_path s2 \<noteq> [] \<and> libc_re < 0 then (libc_re, emit (E_libc_close fd) s2)
          else
            let s3 = (if replicate_path s2 \<noteq> [] then emit (E_libc_close fd) s2 else s2);
                a = inode_info f';
                s4 = s3\<lparr>open_files := (open_files s3)(fd := None)\<rparr>;
                ii = (heap s4 a)\<lparr>fd_ref := fd_ref (heap s4 a) - 1\<rparr>;
                s5 = s4\<lparr>heap := (heap s4)(a := ii)\<rparr>;
                s6 = (if fd_ref ii = 0
                      then s5\<lparr>open_inodes := (open_inodes s5)(inode_of ii := None)\<rparr> else s5);
                s7 = (if fd_ref ii = 0
                      then emit (E_release_inode_info a) (emit (E_flush_inode a) s6) else s6)
            in (cfs_errno cfs_re, emit (E_cfs_close fd) s7))"

text \<open>
  \<open>real_close\<close>. (The bookkeeping of \<open>fd_path\<close> after the call is compiled in debug
  builds only and touches neither table.)
\<close>

definition real_close :: "client_info_t \<Rightarrow> fd_t \<Rightarrow> int \<Rightarrow> int \<Rightarrow> int \<times> client_info_t" where
  "real_close s fd libc_re cfs_re =
     (if fd <s 0 then (- 1, s)
      else if g_hook s \<and> fd_in_cfs fd then close_cfs_fd s fd libc_re cfs_re
      else (libc_re, emit (E_libc_close fd) s))"


section \<open>Truncating and the stat family\<close>

text \<open>
  \<open>real_truncate\<close>. \<open>path\<close> is the answer of \<open>get_cfs_path\<close> (\<open>None\<close> for \<open>NULL\<close>: the path
  is outside the mount); \<open>libc_re\<close>, \<open>cfs_re\<close> and \<open>stat_re\<close> are the answers of
  \<open>libc_truncate\<close>, \<open>cfs_truncate\<close> and \<open>cfs_stat\<close>, and \<open>statbuf\<close> is what \<open>cfs_stat\<close>
  left in its buffer.
\<close>

definition real_truncate ::
  "client_info_t \<Rightarrow> string option \<Rightarrow> off_t \<Rightarrow> int \<Rightarrow> int \<Rightarrow> int \<Rightarrow> stat_t \<Rightarrow> int \<times> client_info_t" where
  "real_truncate s path len libc_re cfs_re stat_re statbuf =
     (case (if g_hook s then path else None) of
        Some p \<Rightarrow>
          if replicate_path s \<noteq> [] \<and> libc_re < 0 then (libc_re, emit (E_libc_truncate len) s)
          else
            let s1 = (if replicate_path s \<noteq> [] then emit (E_libc_truncate len) s else s);
                re = cfs_errno cfs_re;
                s2 = emit (E_cfs_truncate p len) s1
            in
            if re < 0 then (re, s2)
            else
              let re1 = cfs_errno stat_re;
                  s3 = emit (E_cfs_stat p) s2
              in
              if re1 = 0 then
                (case get_open_inode s3 (st_ino statbuf) of
                   Some a \<Rightarrow> (re, s3\<lparr>heap := (heap s3)(a := (heap s3 a)\<lparr>size_of := len\<rparr>)\<rparr>)
                 | None \<Rightarrow> (re, s3))
              else (re, s3)
      | None \<Rightarrow> (libc_re, emit (E_libc_truncate len) s))"


text \<open>
  The block that every function of the stat family runs after the SDK's call:
  \<^verbatim>\<open>if(re == 0) { inode_info = get_open_inode(statbuf->st_ino);
               if(inode_info != NULL) statbuf->st_size = inode_info->size; }\<close>
\<close>

definition stat_open_size :: "client_info_t \<Rightarrow> int \<Rightarrow> stat_t \<Rightarrow> stat_t" where
  "stat_open_size s re statbuf =
     (if re = 0 then
        (case get_open_inode s (st_ino statbuf) of
           Some a \<Rightarrow> statbuf\<lparr>st_size := size_of (heap s a)\<rparr>
         | None \<Rightarrow> statbuf)
      else statbuf)"






section \<open>The write path\<close>

text \<open>A store through \<open>f\<close>, the pointer found in \<open>open_files\<close> under the key \<open>fd\<close>.\<close>

definition put_file :: "client_info_t \<Rightarrow> fd_t \<Rightarrow> file_t \<Rightarrow> client_info_t" where
  "put_file s fd f = s\<lparr>open_files := (open_files s)(fd \<mapsto> f)\<rparr>"

text \<open>
  The block shared by \<open>real_write\<close> and \<open>real_pwrite\<close>, from the call of \<open>write_cache\<close>
  to the assignment of \<open>re\<close>: offer the data to the page cache; if the inode is
  write-through or the cache took less than \<open>count\<close> (an unsigned comparison), clear the
  range in the cache in the second case, and write the whole range with \<open>cfs_pwrite\<close>.
  \<open>re_cache\<close> and \<open>cfs_re\<close> are the answers of \<open>write_cache\<close> and \<open>cfs_pwrite\<close>.
\<close>

definition write_data ::
  "client_info_t \<Rightarrow> fd_t \<Rightarrow> addr \<Rightarrow> off_t \<Rightarrow> size_t \<Rightarrow> ssize_t \<Rightarrow> ssize_t \<Rightarrow> ssize_t \<times> client_info_t" where
  "write_data s fd a offset count re_cache cfs_re =
     (let s1 = emit (E_write_cache a offset count) s in
      if FILE_CACHE_WRITE_THROUGH \<in> cache_flag (heap s1 a) \<or> re_cache < count then
        (let s2 = (if re_cache < count then emit (E_clear_inode_range a offset count) s1 else s1)
         in (cfs_errno_ssize_t cfs_re, emit (E_cfs_pwrite fd count offset) s2))
      else (re_cache, s1))"

text \<open>\<open>real_write\<close>; \<open>re_local\<close> is the answer of \<open>libc_write\<close>.\<close>

definition real_write ::
  "client_info_t \<Rightarrow> fd_t \<Rightarrow> size_t \<Rightarrow> ssize_t \<Rightarrow> ssize_t \<Rightarrow> ssize_t \<Rightarrow> ssize_t \<times> client_info_t" where
  "real_write s fd0 count re_cache cfs_re re_local =
     (if fd0 <s 0 then (- 1, s)
      else if g_hook s \<and> fd_in_cfs fd0 then
        (let fd = get_cfs_fd s fd0 in
         case get_open_file s fd of
           None \<Rightarrow> (- 1, s)
         | Some f0 \<Rightarrow>
             let a = inode_info f0;
                 f1 = (if flags_of f0 AND O_APPEND \<noteq> 0
                       then f0\<lparr>pos_of := size_of (heap s a)\<rparr> else f0);
                 s1 = put_file s fd f1;
                 (re, s2) = write_data s1 fd a (pos_of f1) count re_cache cfs_re
             in
             if 0 <s re then
               (let f2 = f1\<lparr>pos_of := pos_of f1 + re\<rparr>;
                    s3 = put_file s2 fd f2;
                    (sz, s4) = update_inode_size s3 a (pos_of f2)
                in
                if replicate_path s4 \<noteq> [] then
                  (let s5 = emit (E_libc_write fd count) s4
                   in if re_local \<noteq> re then (re_local, s5) else (re, s5))
                else (re, s4))
             else (re, s2))
      else (re_local, emit (E_libc_write fd0 count) s))"

text \<open>\<open>real_pwrite\<close>; \<open>libc_re\<close> is the answer of \<open>libc_pwrite\<close>.\<close>

definition real_pwrite ::
  "client_info_t \<Rightarrow> fd_t \<Rightarrow> size_t \<Rightarrow> off_t \<Rightarrow> ssize_t \<Rightarrow> ssize_t \<Rightarrow> ssize_t \<Rightarrow> ssize_t \<times> client_info_t" where
  "real_pwrite s fd0 count offset re_cache cfs_re libc_re =
     (if fd0 <s 0 then (- 1, s)
      else if g_hook s \<and> fd_in_cfs fd0 then
        (let fd = get_cfs_fd s fd0 in
         if replicate_path s \<noteq> [] \<and> libc_re <s 0 then (libc_re, emit (E_libc_pwrite fd count offset) s)
         else
           let s0 = (if replicate_path s \<noteq> [] then emit (E_libc_pwrite fd count offset) s else s);
               re0 = (if replicate_path s \<noteq> [] then libc_re else - 1)
           in
           case get_open_file s0 fd of
             None \<Rightarrow> (re0, s0)
           | Some f \<Rightarrow>
               let a = inode_info f;
                   (re, s2) = write_data s0 fd a offset count re_cache cfs_re
               in
               if 0 <s re then (re, snd (update_inode_size s2 a (offset + re)))
               else (re, s2))
      else (libc_re, emit (E_libc_pwrite fd0 count offset) s))"


text \<open>\<open>real_lseek\<close>, with \<open>SEEK_SET\<close>, \<open>SEEK_CUR\<close> and \<open>SEEK_END\<close> of unistd.h.\<close>

definition SEEK_SET :: int where "SEEK_SET = 0"
definition SEEK_CUR :: int where "SEEK_CUR = 1"
definition SEEK_END :: int where "SEEK_END = 2"

definition real_lseek ::
  "client_info_t \<Rightarrow> fd_t \<Rightarrow> off_t \<Rightarrow> int \<Rightarrow> off_t \<Rightarrow> off_t \<times> client_info_t" where
  "real_lseek s fd0 offset whence libc_re =
     (if fd0 <s 0 then (- 1, s)
      else if g_hook s \<and> fd_in_cfs fd0 then
        (let fd = get_cfs_fd s fd0 in
         if replicate_path s \<noteq> [] \<and> libc_re <s 0 then (libc_re, emit (E_libc_lseek fd offset whence) s)
         else
           let s0 = (if replicate_path s \<noteq> [] then emit (E_libc_lseek fd offset whence) s else s);
               re0 = (if replicate_path s \<noteq> [] then libc_re else - 1)
           in
           case get_open_file s0 fd of
             None \<Rightarrow> (re0, s0)
           | Some f \<Rightarrow>
               let f' = (if whence = SEEK_SET then f\<lparr>pos_of := offset\<rparr>
                         else if whence = SEEK_CUR then f\<lparr>pos_of := pos_of f + offset\<rparr>
                         else if whence = SEEK_END
                           then f\<lparr>pos_of := size_of (heap s0 (inode_info f)) + offset\<rparr>
                         else f)
               in (pos_of f', put_file s0 fd f'))
      else (libc_re, emit (E_libc_lseek fd0 offset whence) s))"

text \<open>The calls made between two states: the part of the later trace that is new.\<close>

definition new_events :: "client_info_t \<Rightarrow> client_info_t \<Rightarrow> event list" where
  "new_events s s' = drop (length (trace s)) (trace s')"


section \<open>The read path\<close>

text \<open>
  A function that may end the process: it returns a value, or \<open>exit\<close> is called.
\<close>

datatype 'a outcome = Returned 'a | Exited int

text \<open>
  The fields of \<open>cfs_read_req_t\<close> that \<open>cfs_pread_sock\<close> uses, and what the network
  answers for one request: whether \<open>new_read_packet\<close> returned a packet, the descriptor
  from \<open>get_conn\<close>, and the values of \<open>write_sock\<close> and \<open>get_read_reply\<close>.
\<close>

record cfs_read_req_t =
  req_size :: size_t
  partition_id :: "64 word"
  extent_id :: "64 word"
  extent_offset :: "64 word"
  file_offset :: off_t
  dp_host :: string
  dp_port :: int

record sock_io =
  packet_ok :: bool
  sock_fd :: int
  write_re :: ssize_t
  reply_re :: ssize_t

text \<open>
  What the collaborators answer during one \<open>read\<close> or \<open>pread\<close>: \<open>malloc\<close> of the local
  buffer, \<open>libc_lseek\<close>, \<open>libc_read\<close>/\<open>libc_pread\<close> and the bytes it left in \<open>buf_local\<close>,
  \<open>read_cache\<close>, \<open>cfs_refresh_eks\<close> (as stored into the \<open>size_t\<close> variable \<open>size\<close>),
  \<open>cfs_read_requests\<close> (the count it returns and the requests it filled in, each with
  the network's answers), \<open>cfs_pread\<close>, and the bytes in \<open>buf\<close> once the data path is
  through.
\<close>

record read_env =
  malloc_ok :: bool
  lseek_ans :: off_t
  local_ans :: ssize_t
  local_buf :: "8 word list"
  cache_ans :: ssize_t
  refresh_ans :: size_t
  req_count_ans :: int
  reqs_ans :: "(cfs_read_req_t \<times> sock_io) list"
  pread_ans :: ssize_t
  cfs_buf :: "8 word list"

text \<open>
  The \<open>for\<close> loop of \<open>cfs_pread_sock\<close> over the requests, with \<open>rd\<close> for the variable
  \<open>read\<close>; it returns \<open>read\<close>, whether an error was met, and the calls made, in
  order. (The array has \<open>max_count = 3\<close> zeroed entries; an entry that
  \<open>cfs_read_requests\<close> did not fill has size 0 and ends the loop, as the end of the list
  does here.)
\<close>

fun read_sock_loop ::
  "(cfs_read_req_t \<times> sock_io) list \<Rightarrow> ssize_t \<Rightarrow> ssize_t \<times> bool \<times> event list" where
  "read_sock_loop [] rd = (rd, False, [])"
| "read_sock_loop ((rq, io) # rest) rd =
     (if req_size rq = 0 then (rd, False, [])
      else if partition_id rq = 0 then
        (let (r, err, evs) = read_sock_loop rest (rd + req_size rq)
         in (r, err, E_memset rd (req_size rq) # evs))
      else if \<not> packet_ok io then (rd, True, [])
      else if sock_fd io < 0 then (rd, True, [E_get_conn (dp_host rq) (dp_port rq)])
      else if write_re io <s 0 then
        (rd, True, [E_get_conn (dp_host rq) (dp_port rq), E_write_sock (sock_fd io),
                    E_close_sock (sock_fd io)])
      else if reply_re io <s 0 then
        (rd, True, [E_get_conn (dp_host rq) (dp_port rq), E_write_sock (sock_fd io),
                    E_get_read_reply (sock_fd io), E_close_sock (sock_fd io)])
      else
        (let done = [E_get_conn (dp_host rq) (dp_port rq), E_write_sock (sock_fd io),
                     E_get_read_reply (sock_fd io),
                     E_put_conn (dp_host rq) (dp_port rq) (sock_fd io)];
             rd' = rd + reply_re io
         in if reply_re io \<noteq> req_size rq then (rd', False, done)
            else (let (r, err, evs) = read_sock_loop rest rd' in (r, err, done @ evs))))"

text \<open>
  \<open>cfs_pread_sock\<close>: the per-extent reads, then the fallback to one \<open>cfs_pread\<close> of the
  whole range if an error was met, or if less than \<open>count\<close> was read and the extent
  keys were not refreshed during this read.
\<close>

definition cfs_pread_sock ::
  "client_info_t \<Rightarrow> fd_t \<Rightarrow> size_t \<Rightarrow> off_t \<Rightarrow> bool \<Rightarrow> read_env \<Rightarrow> ssize_t \<times> client_info_t" where
  "cfs_pread_sock s fd count offset hasRefreshed env =
     (let (rd, err, evs) = read_sock_loop (take (nat (req_count_ans env)) (reqs_ans env)) 0;
          s2 = s\<lparr>trace := trace s @ E_cfs_read_requests fd count offset # evs\<rparr>;
          has_err = (req_count_ans env < 0 \<or> err)
      in if (rd < count \<and> \<not> hasRefreshed) \<or> has_err
         then (pread_ans env, emit (E_cfs_pread fd count offset) s2)
         else (rd, s2))"

text \<open>
  The block shared by \<open>real_read\<close> and \<open>real_pread\<close>, from \<open>bool hasRefreshed = false\<close>
  to the assignment of \<open>re\<close>. The comparisons are the unsigned ones of the C text
  (\<open>size\<close> and \<open>count\<close> are \<open>size_t\<close>), so \<open>size >= 0\<close> holds whatever \<open>cfs_refresh_eks\<close>
  answered.
\<close>

definition read_data ::
  "client_info_t \<Rightarrow> fd_t \<Rightarrow> file_t \<Rightarrow> off_t \<Rightarrow> size_t \<Rightarrow> read_env \<Rightarrow> ssize_t \<times> client_info_t" where
  "read_data s fd f offset count env =
     (let a = inode_info f;
          size0 = size_of (heap s a);
          re_cache = cache_ans env;
          s1 = emit (E_read_cache a offset count) s;
          (hasRefreshed, sz, s2) =
            (if re_cache < count \<and> size0 \<le> offset + count \<and> file_type f \<noteq> FILE_TYPE_BIN_LOG then
               (let t1 = emit (E_flush_inode a) s1;
                    t2 = emit (E_cfs_flush fd) t1;
                    t3 = emit (E_cfs_refresh_eks (inode_of (heap t2 a))) t2;
                    sz1 = refresh_ans env;
                    hr = (0 \<le> sz1)
                in (hr, sz1, snd (update_inode_size t3 a sz1)))
             else (False, size0, s1))
      in
      if re_cache < count \<and> offset + re_cache < sz then
        (let s3 = emit (E_flush_inode_range a offset count) s2;
             s4 = emit (E_cfs_flush fd) s3;
             new_count = (if sz < offset + count then sz - offset else count);
             (r, s5) = cfs_pread_sock s4 fd new_count offset hasRefreshed env
         in (cfs_errno_ssize_t r, s5))
      else (re_cache, s2))"

text \<open>\<open>memcmp(b1, b2, n) != 0\<close> on the contents of two buffers.\<close>

definition memcmp_differs :: "8 word list \<Rightarrow> 8 word list \<Rightarrow> nat \<Rightarrow> bool" where
  "memcmp_differs b1 b2 n \<longleftrightarrow> take n b1 \<noteq> take n b2"

text \<open>
  The check against the local replica at the end of \<open>real_read\<close> and \<open>real_pread\<close>:
  the first \<open>min(re_local, re)\<close> bytes are compared when both reads returned data.
\<close>

definition check_local ::
  "client_info_t \<Rightarrow> off_t \<Rightarrow> ssize_t \<Rightarrow> ssize_t \<Rightarrow> read_env \<Rightarrow> ssize_t outcome \<times> client_info_t" where
  "check_local s offset re re_local env =
     (let min_res = (if re_local <s re then re_local else re) in
      if 0 <s re_local \<and> 0 <s re \<and> memcmp_differs (cfs_buf env) (local_buf env) (unat min_res)
      then (Exited 1, emit (E_exit 1) (emit E_cfs_flush_log (emit (E_find_diff_data offset min_res) s)))
      else (Returned re, s))"

definition real_read ::
  "client_info_t \<Rightarrow> fd_t \<Rightarrow> size_t \<Rightarrow> read_env \<Rightarrow> ssize_t outcome \<times> client_info_t" where
  "real_read s fd0 count env =
     (if fd0 <s 0 then (Returned (- 1), s)
      else if g_hook s \<and> fd_in_cfs fd0 then
        (let fd = get_cfs_fd s fd0 in
         case get_open_file s fd of
           None \<Rightarrow> (Returned (- 1), s)
         | Some f \<Rightarrow>
             let offset = pos_of f in
             if replicate_path s \<noteq> [] \<and> \<not> malloc_ok env then (Returned (- 1), s)
             else if replicate_path s \<noteq> [] \<and> lseek_ans env <s 0
               then (Returned (- 1), emit (E_libc_lseek fd offset SEEK_SET) s)
             else
               let s0 = (if replicate_path s \<noteq> []
                         then emit (E_libc_read fd count) (emit (E_libc_lseek fd offset SEEK_SET) s)
                         else s);
                   re_local = (if replicate_path s \<noteq> [] then local_ans env else 0);
                   (re, s1) = read_data s0 fd f offset count env;
                   s2 = (if 0 <s re then put_file s1 fd (f\<lparr>pos_of := pos_of f + re\<rparr>) else s1)
               in if replicate_path s2 \<noteq> [] then check_local s2 offset re re_local env
                  else (Returned re, s2))
      else (Returned (local_ans env), emit (E_libc_read fd0 count) s))"

definition real_pread ::
  "client_info_t \<Rightarrow> fd_t \<Rightarrow> size_t \<Rightarrow> off_t \<Rightarrow> read_env \<Rightarrow> ssize_t outcome \<times> client_info_t" where
  "real_pread s fd0 count offset env =
     (if fd0 <s 0 then (Returned (- 1), s)
      else if g_hook s \<and> fd_in_cfs fd0 then
        (let fd = get_cfs_fd s fd0 in
         if replicate_path s \<noteq> [] \<and> \<not> malloc_ok env then (Returned (- 1), s)
         else
           let s0 = (if replicate_path s \<noteq> [] then emit (E_libc_pread fd count offset) s else s);
               re_local = (if replicate_path s \<noteq> [] then local_ans env else 0)
           in
           case get_open_file s0 fd of
             None \<Rightarrow> (Returned (- 1), s0)
           | Some f \<Rightarrow>
               let (re, s1) = read_data s0 fd f offset count env
               in if replicate_path s1 \<noteq> [] then check_local s1 offset re re_local env
                  else (Returned re, s1))
      else (Returned (local_ans env), emit (E_libc_pread fd0 count offset) s))"

text \<open>
  \<open>real_readv\<close>. \<open>iov\<close> holds the contents of the caller's buffers after \<open>cfs_preadv\<close>
  (each as long as its \<open>iov_len\<close>) and \<open>cfs_re\<close> its answer; \<open>iov_local\<close> holds the
  contents of the buffers allocated for the local read after \<open>libc_readv\<close>, and
  \<open>libc_re\<close> its answer. The comparison loop returns the index of the first pair of
  buffers that \<open>memcmp\<close> over the whole \<open>iov_len\<close> finds different.
\<close>

fun iov_compare :: "8 word list list \<Rightarrow> 8 word list list \<Rightarrow> nat \<Rightarrow> nat option" where
  "iov_compare (b # bs) (l # ls) i =
     (if memcmp_differs b l (length b) then Some i else iov_compare bs ls (Suc i))"
| "iov_compare _ _ i = None"

definition real_readv ::
  "client_info_t \<Rightarrow> fd_t \<Rightarrow> ssize_t \<Rightarrow> 8 word list list \<Rightarrow> off_t \<Rightarrow> ssize_t \<Rightarrow> 8 word list list \<Rightarrow>
   ssize_t outcome \<times> client_info_t" where
  "real_readv s fd0 cfs_re iov lseek_re libc_re iov_local =
     (if fd0 <s 0 then (Returned (- 1), s)
      else if g_hook s \<and> fd_in_cfs fd0 then
        (let fd = get_cfs_fd s fd0 in
         case get_open_file s fd of
           None \<Rightarrow> (Returned (- 1), s)
         | Some f \<Rightarrow>
             let offset = pos_of f;
                 re = cfs_errno_ssize_t cfs_re;
                 s1 = emit (E_cfs_preadv fd (pos_of f)) s;
                 s2 = (if 0 <s re then put_file s1 fd (f\<lparr>pos_of := pos_of f + re\<rparr>) else s1)
             in
             if replicate_path s2 \<noteq> [] then
               (if re \<le>s 0 then (Returned re, s2)
                else
                  let s3 = emit (E_libc_lseek fd offset SEEK_SET) s2 in
                  if lseek_re <s 0 then (Returned re, s3)
                  else
                    let s4 = emit (E_libc_readv fd) s3 in
                    if libc_re \<le>s 0 then (Returned libc_re, s4)
                    else
                      (case iov_compare iov iov_local 0 of
                         Some i \<Rightarrow>
                           (Exited 1,
                            emit (E_exit 1) (emit E_cfs_flush_log
                              (emit (E_find_diff_data offset (of_nat (length (iov ! i)))) s4)))
                       | None \<Rightarrow> (Returned libc_re, s4)))
             else (Returned re, s2))
      else (Returned libc_re, emit (E_libc_readv fd0) s))"

text \<open>The calls that the per-extent loop makes.\<close>

definition sock_event :: "event \<Rightarrow> bool" where
  "sock_event e =
     (case e of
        E_memset _ _ \<Rightarrow> True
      | E_get_conn _ _ \<Rightarrow> True
      | E_write_sock _ \<Rightarrow> True
      | E_get_read_reply _ \<Rightarrow> True
      | E_put_conn _ _ _ \<Rightarrow> True
      | E_close_sock _ \<Rightarrow> True
      | _ \<Rightarrow> False)"

text \<open>
  The condition of the refresh in \<open>read_data\<close>, and the length it asks the network
  for.
\<close>

definition refresh_due :: "client_info_t \<Rightarrow> file_t \<Rightarrow> off_t \<Rightarrow> size_t \<Rightarrow> read_env \<Rightarrow> bool" where
  "refresh_due s f offset count env \<longleftrightarrow>
     cache_ans env < count \<and> size_of (heap s (inode_info f)) \<le> offset + count \<and>
     file_type f \<noteq> FILE_TYPE_BIN_LOG"

definition capped_count :: "size_t \<Rightarrow> off_t \<Rightarrow> size_t \<Rightarrow> size_t" where
  "capped_count sz offset count = (if sz < offset + count then sz - offset else count)"


text \<open>What the loop of \<open>cfs_pread_sock\<close> computes from the answers of one read.\<close>

definition per_extent :: "read_env \<Rightarrow> ssize_t \<times> bool \<times> event list" where
  "per_extent env = read_sock_loop (take (nat (req_count_ans env)) (reqs_ans env)) 0"

text \<open>
  The size that \<open>read_data\<close> works with after the refresh step, whether it goes to the
  network, and whether \<open>cfs_pread_sock\<close> then falls back to \<open>cfs_pread\<close>.
\<close>

definition size_seen :: "client_info_t \<Rightarrow> file_t \<Rightarrow> off_t \<Rightarrow> size_t \<Rightarrow> read_env \<Rightarrow> size_t" where
  "size_seen s f offset count env =
     (if refresh_due s f offset count env then refresh_ans env else size_of (heap s (inode_info f)))"

definition network_due :: "client_info_t \<Rightarrow> file_t \<Rightarrow> off_t \<Rightarrow> size_t \<Rightarrow> read_env \<Rightarrow> bool" where
  "network_due s f offset count env \<longleftrightarrow>
     cache_ans env < count \<and> offset + cache_ans env < size_seen s f offset count env"

definition fallback_due :: "size_t \<Rightarrow> bool \<Rightarrow> read_env \<Rightarrow> bool" where
  "fallback_due count hasRefreshed env \<longleftrightarrow>
     (fst (per_extent env) < count \<and> \<not> hasRefreshed) \<or>
     req_count_ans env < 0 \<or> fst (snd (per_extent env))"


text \<open>
  Whether the check against the local replica finds a difference, and the calls it
  makes then.
\<close>

definition local_differs :: "ssize_t \<Rightarrow> ssize_t \<Rightarrow> read_env \<Rightarrow> bool" where
  "local_differs re re_local env \<longleftrightarrow>
     0 <s re_local \<and> 0 <s re \<and>
     memcmp_differs (cfs_buf env) (local_buf env) (unat (if re_local <s re then re_local else re))"

definition fatal_events :: "off_t \<Rightarrow> ssize_t \<Rightarrow> ssize_t \<Rightarrow> event list" where
  "fatal_events offset re re_local =
     [E_find_diff_data offset (if re_local <s re then re_local else re), E_cfs_flush_log, E_exit 1]"

definition is_refresh :: "event \<Rightarrow> bool" where
  "is_refresh e = (case e of E_cfs_refresh_eks _ \<Rightarrow> True | _ \<Rightarrow> False)"


text \<open>
  What C2 says of one \<open>read\<close> or \<open>pread\<close> that starts in \<open>s\<close> and ends in \<open>s'\<close>, with the
  amendment that the cached size never shrinks. \<open>mirror\<close> are the calls on the local
  replica that come first when a replicate path is configured.
\<close>

definition refresh_behaviour ::
  "client_info_t \<Rightarrow> file_t \<Rightarrow> fd_t \<Rightarrow> off_t \<Rightarrow> size_t \<Rightarrow> read_env \<Rightarrow> event list \<Rightarrow> client_info_t \<Rightarrow> bool" where
  "refresh_behaviour s f fd offset count env mirror s' \<longleftrightarrow>
     (let a = inode_info f; old = size_of (heap s a) in
      (cache_ans env < count \<and> old \<le> offset + count \<and> file_type f \<noteq> FILE_TYPE_BIN_LOG \<longrightarrow>
         (\<exists>rest. new_events s s' =
            mirror @ [E_read_cache a offset count, E_flush_inode a, E_cfs_flush fd,
                      E_cfs_refresh_eks (inode_of (heap s a))] @ rest) \<and>
         size_of (heap s' a) = max old (refresh_ans env)) \<and>
      (file_type f = FILE_TYPE_BIN_LOG \<or> \<not> cache_ans env < count \<or> \<not> old \<le> offset + count \<longrightarrow>
         (\<forall>i. E_cfs_refresh_eks i \<notin> set (new_events s s')) \<and> heap s' = heap s))"

text \<open>
  Answers for the examples. In \<open>shrink_env\<close> the cache holds nothing, the refresh
  reports a size of 5 and the one extent returns its 5 bytes. In \<open>short_env\<close> the refresh
  reports 10 and the one extent of 10 bytes returns only 4.
\<close>

definition shrink_env :: read_env where
  "shrink_env = \<lparr>malloc_ok = True, lseek_ans = 0, local_ans = 0, local_buf = [], cache_ans = 0,
     refresh_ans = 5, req_count_ans = 1,
     reqs_ans = [(\<lparr>req_size = 5, partition_id = 1, extent_id = 1, extent_offset = 0,
                    file_offset = 0, dp_host = ''dn1'', dp_port = 17030\<rparr>,
                  \<lparr>packet_ok = True, sock_fd = 9, write_re = 0, reply_re = 5\<rparr>)],
     pread_ans = 0, cfs_buf = []\<rparr>"


text \<open>In \<open>grow_env\<close> the refresh reports a size of 30.\<close>

definition grow_env :: read_env where
  "grow_env = shrink_env\<lparr>refresh_ans := 30\<rparr>"

text \<open>
  The example state with a replicate path configured, and a \<open>readv\<close> at the end of a
  file: the caller's one buffer has 4 bytes, both the SDK and the local replica return
  the 2 bytes \<open>ab\<close> that are left, the rest of the caller's buffer is zero and the rest
  of the freshly allocated local buffer is whatever the allocator left there.
\<close>

definition one_open_replica :: client_info_t where
  "one_open_replica = one_open\<lparr>replicate_path := ''/data/replica''\<rparr>"

definition eof_iov :: "8 word list list" where
  "eof_iov = [97, 98, 0, 0] # []"

definition eof_iov_local :: "8 word list list" where
  "eof_iov_local = [97, 98, 255, 255] # []"











text \<open>
  The example file with a replicate path configured, after \<open>lseek(fd, 8, SEEK_SET)\<close>
  (which the replica answers with 8): the cursor of descriptor 3 is at 8.
\<close>

definition replica_at_eight :: client_info_t where
  "replica_at_eight = snd (real_lseek one_open_replica 0x40000003 8 SEEK_SET 8)"

section \<open>Two threads registering the same inode\<close>

text \<open>
  Where a thread stands in \<open>record_inode_info\<close>: before the lookup under the read
  lock; after a lookup that found nothing; after building its own object at some
  address; or returned, with the pointer it returns.
\<close>

datatype rii_pc = RII_start | RII_missed | RII_built addr | RII_done "addr option"

text \<open>
  One part of \<open>record_inode_info\<close>, run by a thread whose allocation returns \<open>new\<close>.
  The first and the third part run under \<open>open_inodes_lock\<close> and the second touches
  only the thread's own new object, so each part is one step.
\<close>

definition rii_step ::
  "ino_t \<Rightarrow> file_type_t \<Rightarrow> size_t \<Rightarrow> addr option \<Rightarrow> rii_pc \<times> client_info_t \<Rightarrow> rii_pc \<times> client_info_t" where
  "rii_step ino ftype sz new c =
     (case c of (pc, s) \<Rightarrow>
        (case pc of
           RII_start \<Rightarrow>
             (case record_inode_info_find s ino of
                (Some a, s1) \<Rightarrow> (RII_done (Some a), s1)
              | (None, s1) \<Rightarrow> (RII_missed, s1))
         | RII_missed \<Rightarrow>
             (case new of
                None \<Rightarrow> (RII_done None, s)
              | Some a \<Rightarrow> (RII_built a, record_inode_info_build s ino ftype sz a))
         | RII_built a \<Rightarrow>
             (let (w, s1) = record_inode_info_insert s ino a in (RII_done (Some w), s1))
         | RII_done r \<Rightarrow> (RII_done r, s)))"

text \<open>
  Two threads call \<open>record_inode_info\<close> for the same inode; their allocations return
  the addresses \<open>a1\<close> and \<open>a2\<close>. A schedule says which thread makes the next step
  (\<open>False\<close> the first, \<open>True\<close> the second).
\<close>

definition race_step ::
  "ino_t \<Rightarrow> file_type_t \<Rightarrow> size_t \<Rightarrow> addr \<Rightarrow> addr \<Rightarrow> bool \<Rightarrow>
   rii_pc \<times> rii_pc \<times> client_info_t \<Rightarrow> rii_pc \<times> rii_pc \<times> client_info_t" where
  "race_step ino ftype sz a1 a2 t c =
     (case c of (p1, p2, s) \<Rightarrow>
        if t then (let (p, s1) = rii_step ino ftype sz (Some a2) (p2, s) in (p1, p, s1))
        else (let (p, s1) = rii_step ino ftype sz (Some a1) (p1, s) in (p, p2, s1)))"

fun race_run ::
  "ino_t \<Rightarrow> file_type_t \<Rightarrow> size_t \<Rightarrow> addr \<Rightarrow> addr \<Rightarrow> bool list \<Rightarrow>
   rii_pc \<times> rii_pc \<times> client_info_t \<Rightarrow> rii_pc \<times> rii_pc \<times> client_info_t" where
  "race_run ino ftype sz a1 a2 [] c = c"
| "race_run ino ftype sz a1 a2 (t # ts) c =
     race_run ino ftype sz a1 a2 ts (race_step ino ftype sz a1 a2 t c)"

text \<open>
  The invariant of the race. \<open>w0\<close> is the entry of the inode in the registry before the
  two calls, if there was one, and \<open>r0\<close> its \<open>fd_ref\<close> then (0 if there was none).
\<close>

definition rii_returned :: "rii_pc \<Rightarrow> bool" where
  "rii_returned p = (case p of RII_done (Some _) \<Rightarrow> True | _ \<Rightarrow> False)"

definition rii_pc_ok :: "addr \<Rightarrow> rii_pc \<Rightarrow> bool" where
  "rii_pc_ok a p = (case p of RII_built b \<Rightarrow> b = a | RII_done None \<Rightarrow> False | _ \<Rightarrow> True)"

definition rii_inv ::
  "ino_t \<Rightarrow> addr \<Rightarrow> addr \<Rightarrow> addr option \<Rightarrow> int \<Rightarrow> rii_pc \<times> rii_pc \<times> client_info_t \<Rightarrow> bool" where
  "rii_inv ino a1 a2 w0 r0 c =
     (case c of (p1, p2, s) \<Rightarrow>
        rii_pc_ok a1 p1 \<and> rii_pc_ok a2 p2 \<and>
        (case open_inodes s ino of
           None \<Rightarrow> w0 = None \<and> \<not> rii_returned p1 \<and> \<not> rii_returned p2
         | Some w \<Rightarrow>
             (w0 = Some w \<or>
              (w0 = None \<and> ((w = a1 \<and> rii_returned p1) \<or> (w = a2 \<and> rii_returned p2)))) \<and>
             fd_ref (heap s w) =
               r0 + (if rii_returned p1 then 1 else 0) + (if rii_returned p2 then 1 else 0) \<and>
             (rii_returned p1 \<longrightarrow> p1 = RII_done (Some w)) \<and>
             (rii_returned p2 \<longrightarrow> p2 = RII_done (Some w))) \<and>
        (p1 = RII_built a1 \<longrightarrow> fd_ref (heap s a1) = 1) \<and>
        (p2 = RII_built a2 \<longrightarrow> fd_ref (heap s a2) = 1))"


section \<open>Bounded retry on the kernel socket path (client\_kernel/cfs\_socket.c)\<close>

text \<open>
  \<^verbatim>\<open>#define CFS_SOCKET_EAGAIN_NUM 100\<close>; \<open>EAGAIN\<close> is the platform's errno value 11.
\<close>

definition CFS_SOCKET_EAGAIN_NUM :: nat where
  "CFS_SOCKET_EAGAIN_NUM = 100"

definition EAGAIN :: int where
  "EAGAIN = 11"

text \<open>
  The result of a send or receive: the value returned, the number of calls of the
  underlying \<open>cfs_socket_send_iovec\<close> / \<open>cfs_socket_recv_iovec\<close> that were made, and
  whether \<open>cfs_log_error\<close> was called.
\<close>

record sock_result =
  ret :: int
  calls :: nat
  logged :: bool

text \<open>
  The \<open>for (i=0; i<CFS_SOCKET_EAGAIN_NUM; i++)\<close> loop of \<open>cfs_socket_send\<close>. The argument
  \<open>iovec\<close> gives the value returned by the \<open>i\<close>-th call of \<open>cfs_socket_send_iovec\<close>
  (counted from 0); \<open>r\<close> is the current content of the variable \<open>ret\<close>. The pair
  returned is \<open>ret\<close> after the loop and the number of calls made.
\<close>

function cfs_socket_send_loop :: "(nat \<Rightarrow> int) \<Rightarrow> nat \<Rightarrow> int \<Rightarrow> int \<times> nat" where
  "cfs_socket_send_loop iovec i r =
     (if i < CFS_SOCKET_EAGAIN_NUM then
        (let r' = iovec i in
         if r' \<ge> 0 \<or> r' \<noteq> - EAGAIN then (r', Suc i)
         else cfs_socket_send_loop iovec (Suc i) r')
      else (r, i))"
  by pat_completeness auto
termination
  by (relation "measure (\<lambda>(iovec, i, r). CFS_SOCKET_EAGAIN_NUM - i)") auto

declare cfs_socket_send_loop.simps [simp del]

definition cfs_socket_send :: "(nat \<Rightarrow> int) \<Rightarrow> int \<Rightarrow> sock_result" where
  "cfs_socket_send iovec uninit =
     (let (r, n) = cfs_socket_send_loop iovec 0 uninit in
      \<lparr>ret = r, calls = n, logged = (r < 0)\<rparr>)"

text \<open>The same loop in \<open>cfs_socket_recv\<close>, around \<open>cfs_socket_recv_iovec\<close>.\<close>

function cfs_socket_recv_loop :: "(nat \<Rightarrow> int) \<Rightarrow> nat \<Rightarrow> int \<Rightarrow> int \<times> nat" where
  "cfs_socket_recv_loop iovec i r =
     (if i < CFS_SOCKET_EAGAIN_NUM then
        (let r' = iovec i in
         if r' \<ge> 0 \<or> r' \<noteq> - EAGAIN then (r', Suc i)
         else cfs_socket_recv_loop iovec (Suc i) r')
      else (r, i))"
  by pat_completeness auto
termination
  by (relation "measure (\<lambda>(iovec, i, r). CFS_SOCKET_EAGAIN_NUM - i)") auto

declare cfs_socket_recv_loop.simps [simp del]

definition cfs_socket_recv :: "(nat \<Rightarrow> int) \<Rightarrow> int \<Rightarrow> sock_result" where
  "cfs_socket_recv iovec uninit =
     (let (r, n) = cfs_socket_recv_loop iovec 0 uninit in
      \<lparr>ret = r, calls = n, logged = (r < 0)\<rparr>)"

text \<open>
  What a bounded immediate retry is: between 1 and 100 calls were made, every call but
  the last returned \<open>-EAGAIN\<close>, the value returned is the one of the last call, and it
  is \<open>-EAGAIN\<close> only when all 100 calls were used.
\<close>

definition bounded_retry :: "(nat \<Rightarrow> int) \<Rightarrow> sock_result \<Rightarrow> bool" where
  "bounded_retry iovec res \<longleftrightarrow>
     1 \<le> calls res \<and> calls res \<le> 100 \<and>
     ret res = iovec (calls res - 1) \<and>
     (\<forall>j < calls res - 1. iovec j = - EAGAIN) \<and>
     (ret res = - EAGAIN \<longrightarrow> calls res = 100)"

text \<open>
  The loop invariant behind it, on the pair the loop returns, for a loop entered at
  index \<open>i\<close>.
\<close>

definition retry_inv :: "(nat \<Rightarrow> int) \<Rightarrow> nat \<Rightarrow> int \<times> nat \<Rightarrow> bool" where
  "retry_inv iovec i res \<longleftrightarrow>
     i < snd res \<and> snd res \<le> 100 \<and> fst res = iovec (snd res - 1) \<and>
     (\<forall>j < snd res - 1. iovec j = - EAGAIN) \<and> (fst res = - EAGAIN \<longrightarrow> snd res = 100)"


section \<open>The example state\<close>

lemma one_open_eq:
  "one_open = \<lparr>g_hook = True, dup_fds = Map.empty, open_files = [3 \<mapsto> the_file],
     open_inodes = [7 \<mapsto> 100], replicate_path = [], cfs_client_id = 1,
     heap = (\<lambda>a. zero_inode_info)(100 := the_inode), trace = []\<rparr>"
  by (simp add: one_open_def record_open_file_def example_file_def record_inode_info_def
      record_inode_info_find_def record_inode_info_build_def record_inode_info_insert_def
      start_state_def new_inode_info_def the_file_def the_inode_def Let_def)

lemma tagged_3 [simp]: "(0x40000003 :: fd_t) AND NOT CFS_FD_MASK = 3"
  by (simp add: CFS_FD_MASK_def)

lemma tagged_3_in_cfs [simp]: "fd_in_cfs 0x40000003"
  by (simp add: fd_in_cfs_def CFS_FD_MASK_def)

lemma tagged_3_not_negative [simp]: "\<not> (0x40000003 :: fd_t) <s 0"
  by (simp add: word_sless_alt)




section \<open>Closing: reference counts\<close>

lemma close_resolve_cases:
  assumes "close_resolve s fd0 = (fd, s1)"
  shows "open_files s1 = open_files s" "open_inodes s1 = open_inodes s" "heap s1 = heap s"
    "trace s1 = trace s" "replicate_path s1 = replicate_path s"
  using assms by (auto simp: close_resolve_def split: option.splits)

lemma close_resolve_tables:
  "open_files (snd (close_resolve s fd)) = open_files s \<and>
   open_inodes (snd (close_resolve s fd)) = open_inodes s \<and>
   heap (snd (close_resolve s fd)) = heap s \<and>
   trace (snd (close_resolve s fd)) = trace s \<and>
   replicate_path (snd (close_resolve s fd)) = replicate_path s"
  by (simp add: close_resolve_def split: option.splits)

lemma close_cfs_fd_absent:
  assumes "open_files s (fst (close_resolve s fd)) = None"
  shows "close_cfs_fd s fd l c = (0, snd (close_resolve s fd))"
proof -
  obtain fd1 s1 where r: "close_resolve s fd = (fd1, s1)" by (cases "close_resolve s fd")
  have "open_files s1 = open_files s"
    using r by (rule close_resolve_cases)
  then show ?thesis using assms r by (simp add: close_cfs_fd_def)
qed

text \<open>
  C3. Let \<open>close_cfs_fd\<close> find the open file \<open>f\<close> under the resolved descriptor \<open>fd\<close>.
  Its \<open>dup_ref\<close> is decremented. If the result is not zero, nothing else happens: the
  entry stays (with the decremented count), registry and inode objects are untouched and
  no collaborator is called. If it is zero (and the close of the local replica, when a
  replicate path is configured, did not fail), the entry is removed, the \<open>fd_ref\<close> of
  the owning \<open>inode_info_t\<close> is decremented and \<open>cfs_close\<close> is called; and the inode is
  erased from the registry, flushed and released exactly when that \<open>fd_ref\<close> became zero.
\<close>

theorem close_refcounts:
  assumes r: "close_resolve s fd0 = (fd, s1)"
    and f: "open_files s fd = Some f"
    and res: "close_cfs_fd s fd0 l c = (re, s')"
  shows "(dup_ref f - 1 \<noteq> 0 \<longrightarrow>
            re = 0 \<and> open_files s' = (open_files s)(fd \<mapsto> f\<lparr>dup_ref := dup_ref f - 1\<rparr>) \<and>
            open_inodes s' = open_inodes s \<and> heap s' = heap s \<and> trace s' = trace s) \<and>
         (dup_ref f - 1 = 0 \<and> \<not> (replicate_path s \<noteq> [] \<and> l < 0) \<longrightarrow>
            re = cfs_errno c \<and> open_files s' = (open_files s)(fd := None) \<and>
            heap s' = (heap s)(inode_info f :=
                        (heap s (inode_info f))\<lparr>fd_ref := fd_ref (heap s (inode_info f)) - 1\<rparr>) \<and>
            open_inodes s' = (if fd_ref (heap s (inode_info f)) - 1 = 0
                              then (open_inodes s)(inode_of (heap s (inode_info f)) := None)
                              else open_inodes s) \<and>
            trace s' = trace s @ (if replicate_path s \<noteq> [] then [E_libc_close fd] else [])
                        @ (if fd_ref (heap s (inode_info f)) - 1 = 0
                           then [E_flush_inode (inode_info f), E_release_inode_info (inode_info f)]
                           else [])
                        @ [E_cfs_close fd])"
proof -
  note rc = close_resolve_cases[OF r]
  have f1: "open_files s1 fd = Some f" using f rc(1) by simp
  show ?thesis
    using res r f1 rc
    by (auto simp: close_cfs_fd_def Let_def emit_def)
qed

lemma close_last_example:
  "close_cfs_fd one_open 0x40000003 0 0 =
     (0, start_state\<lparr>heap := (\<lambda>a. zero_inode_info)(100 := the_inode\<lparr>fd_ref := 0\<rparr>),
                    trace := [E_flush_inode 100, E_release_inode_info 100, E_cfs_close 3]\<rparr>)"
  by (simp add: one_open_eq close_cfs_fd_def close_resolve_def Let_def emit_def the_file_def
      the_inode_def start_state_def cfs_errno_def)

theorem close_refcounts_witness:
  "close_resolve one_open 0x40000003 = (3, one_open) \<and>
   open_files one_open 3 = Some the_file \<and>
   dup_ref the_file - 1 = 0 \<and> replicate_path one_open = [] \<and>
   open_files (snd (close_cfs_fd one_open 0x40000003 0 0)) = (open_files one_open)(3 := None) \<and>
   open_inodes (snd (close_cfs_fd one_open 0x40000003 0 0)) = (open_inodes one_open)(7 := None) \<and>
   trace (snd (close_cfs_fd one_open 0x40000003 0 0)) =
     [E_flush_inode 100, E_release_inode_info 100, E_cfs_close 3]"
proof -
  have r: "close_resolve one_open 0x40000003 = (3, one_open)"
    by (simp add: close_resolve_def one_open_eq)
  have f: "open_files one_open 3 = Some the_file"
    by (simp add: one_open_eq)
  have res: "close_cfs_fd one_open 0x40000003 0 0 =
       (fst (close_cfs_fd one_open 0x40000003 0 0), snd (close_cfs_fd one_open 0x40000003 0 0))"
    by simp
  have h: "heap one_open 100 = the_inode" "replicate_path one_open = []" "trace one_open = []"
    by (simp_all add: one_open_eq)
  show ?thesis
    using close_refcounts[OF r f res] r f h
    by (simp add: the_file_def the_inode_def)
qed

text \<open>
  C10. If the resolved descriptor has no entry in the open-file table, \<open>close_cfs_fd\<close>
  returns 0, leaves the open-file table, the registry of open inodes and the inode
  objects as they were, and calls no collaborator (so no \<open>cfs_close\<close>); \<open>real_close\<close> on a
  tagged, non-negative descriptor returns just that.
\<close>

theorem close_unknown_fd:
  assumes "open_files s (fst (close_resolve s fd)) = None"
  shows "fst (close_cfs_fd s fd l c) = 0 \<and>
         open_files (snd (close_cfs_fd s fd l c)) = open_files s \<and>
         open_inodes (snd (close_cfs_fd s fd l c)) = open_inodes s \<and>
         heap (snd (close_cfs_fd s fd l c)) = heap s \<and>
         trace (snd (close_cfs_fd s fd l c)) = trace s \<and>
         (g_hook s \<and> fd_in_cfs fd \<and> \<not> fd <s 0 \<longrightarrow> real_close s fd l c = close_cfs_fd s fd l c)"
  using close_cfs_fd_absent[OF assms, of l c] close_resolve_tables[of s fd]
  by (simp add: real_close_def)

theorem close_unknown_fd_witness:
  "open_files start_state (fst (close_resolve start_state 0x40000003)) = None \<and>
   g_hook start_state \<and> fd_in_cfs 0x40000003 \<and> \<not> (0x40000003 :: fd_t) <s 0 \<and>
   real_close start_state 0x40000003 0 0 = (0, start_state)"
  using close_unknown_fd[of start_state "0x40000003" 0 0]
  by (simp add: start_state_def close_resolve_def real_close_def close_cfs_fd_def)


section \<open>Truncation and the size reported by stat\<close>



lemma stat_open_size_emit [simp]: "stat_open_size (emit e s) re sb = stat_open_size s re sb"
  by (simp add: stat_open_size_def emit_def get_open_inode_def split: option.splits)




lemma real_truncate_result:
  "fst (real_truncate s path len lre cre sre sb) =
     (if g_hook s \<and> path \<noteq> None \<and> \<not> (replicate_path s \<noteq> [] \<and> lre < 0) then cfs_errno cre else lre)"
  by (auto simp: real_truncate_def Let_def emit_def get_open_inode_def cfs_errno_def
      split: option.splits)












section \<open>The write path: page cache first, write-through, cached size\<close>

lemma write_data_result:
  "write_data s fd a off cnt rc cr =
     (if FILE_CACHE_WRITE_THROUGH \<in> cache_flag (heap s a) \<or> rc < cnt then cfs_errno_ssize_t cr else rc,
      s\<lparr>trace := trace s @ [E_write_cache a off cnt] @
           (if FILE_CACHE_WRITE_THROUGH \<in> cache_flag (heap s a) \<or> rc < cnt
            then (if rc < cnt then [E_clear_inode_range a off cnt] else []) @ [E_cfs_pwrite fd cnt off]
            else [])\<rparr>)"
  by (simp add: write_data_def Let_def emit_def)

lemma real_write_open:
  assumes "g_hook s" "fd_in_cfs fd0" "\<not> fd0 <s 0"
    and "get_open_file s (get_cfs_fd s fd0) = Some f"
  shows
   "let fd = get_cfs_fd s fd0; a = inode_info f;
        wt = (FILE_CACHE_WRITE_THROUGH \<in> cache_flag (heap s a) \<or> re_cache < count);
        n = (if wt then cfs_errno_ssize_t cfs_re else re_cache);
        off = (if flags_of f AND O_APPEND \<noteq> 0 then size_of (heap s a) else pos_of f);
        s' = snd (real_write s fd0 count re_cache cfs_re re_local)
    in new_events s s' =
         [E_write_cache a off count] @
         (if wt then (if re_cache < count then [E_clear_inode_range a off count] else []) @
                     [E_cfs_pwrite fd count off]
          else []) @
         (if 0 <s n \<and> replicate_path s \<noteq> [] then [E_libc_write fd count] else []) \<and>
       (0 <s n \<longrightarrow> size_of (heap s' a) = max (size_of (heap s a)) (off + n)) \<and>
       (\<not> 0 <s n \<longrightarrow> heap s' = heap s) \<and>
       (replicate_path s = [] \<or> re_local = n \<or> \<not> 0 <s n \<longrightarrow>
          fst (real_write s fd0 count re_cache cfs_re re_local) = n) \<and>
       open_files s' = (open_files s)(fd \<mapsto> f\<lparr>pos_of := (if 0 <s n then off + n else off)\<rparr>)"
  using assms
  by (auto simp: real_write_def Let_def write_data_result put_file_def update_inode_size_def
      new_events_def emit_def)






lemma real_pwrite_open:
  assumes "g_hook s" "fd_in_cfs fd0" "\<not> fd0 <s 0"
    and "get_open_file s (get_cfs_fd s fd0) = Some f"
    and "\<not> (replicate_path s \<noteq> [] \<and> libc_re <s 0)"
  shows
   "let fd = get_cfs_fd s fd0; a = inode_info f;
        wt = (FILE_CACHE_WRITE_THROUGH \<in> cache_flag (heap s a) \<or> re_cache < count);
        n = (if wt then cfs_errno_ssize_t cfs_re else re_cache);
        s' = snd (real_pwrite s fd0 count offset re_cache cfs_re libc_re)
    in new_events s s' =
         (if replicate_path s \<noteq> [] then [E_libc_pwrite fd count offset] else []) @
         [E_write_cache a offset count] @
         (if wt then (if re_cache < count then [E_clear_inode_range a offset count] else []) @
                     [E_cfs_pwrite fd count offset]
          else []) \<and>
       (0 <s n \<longrightarrow> size_of (heap s' a) = max (size_of (heap s a)) (offset + n)) \<and>
       (\<not> 0 <s n \<longrightarrow> heap s' = heap s) \<and>
       fst (real_pwrite s fd0 count offset re_cache cfs_re libc_re) = n"
  using assms
  by (auto simp: real_pwrite_def Let_def write_data_result put_file_def update_inode_size_def
      new_events_def emit_def get_open_file_def get_cfs_fd_def)

lemma real_write_return:
  assumes "g_hook s" "fd_in_cfs fd0" "\<not> fd0 <s 0"
    and "get_open_file s (get_cfs_fd s fd0) = Some f"
  shows
   "fst (real_write s fd0 count re_cache cfs_re re_local) =
      (if 0 <s (if FILE_CACHE_WRITE_THROUGH \<in> cache_flag (heap s (inode_info f)) \<or> re_cache < count
                then cfs_errno_ssize_t cfs_re else re_cache) \<and> replicate_path s \<noteq> []
       then re_local
       else (if FILE_CACHE_WRITE_THROUGH \<in> cache_flag (heap s (inode_info f)) \<or> re_cache < count
             then cfs_errno_ssize_t cfs_re else re_cache))"
  using assms
  by (auto simp: real_write_def Let_def write_data_result put_file_def update_inode_size_def
      emit_def)

lemma real_pwrite_mirror_failure:
  assumes "g_hook s" "fd_in_cfs fd0" "\<not> fd0 <s 0"
    and "replicate_path s \<noteq> [] \<and> libc_re <s 0"
  shows "real_pwrite s fd0 count offset re_cache cfs_re libc_re =
           (libc_re, emit (E_libc_pwrite (get_cfs_fd s fd0) count offset) s)"
    and "new_events s (snd (real_pwrite s fd0 count offset re_cache cfs_re libc_re)) =
           [E_libc_pwrite (get_cfs_fd s fd0) count offset]"
  using assms by (simp_all add: real_pwrite_def Let_def new_events_def emit_def)

lemma one_open_facts:
  "g_hook one_open" "replicate_path one_open = []"
  "get_open_file one_open (get_cfs_fd one_open 0x40000003) = Some the_file"
  "get_open_inode one_open 7 = Some 100" "heap one_open 100 = the_inode"
  "trace one_open = []" "get_cfs_fd one_open 0x40000003 = 3"
  by (simp_all add: one_open_eq get_open_file_def get_cfs_fd_def get_open_inode_def)

lemma one_open_replica_facts:
  "g_hook one_open_replica" "replicate_path one_open_replica = ''/data/replica''"
  "get_open_file one_open_replica (get_cfs_fd one_open_replica 0x40000003) = Some the_file"
  "heap one_open_replica 100 = the_inode"
  "trace one_open_replica = []" "get_cfs_fd one_open_replica 0x40000003 = 3"
  by (simp_all add: one_open_replica_def one_open_eq get_open_file_def get_cfs_fd_def)

lemma replica_at_eight_eq:
  "replica_at_eight = \<lparr>g_hook = True, dup_fds = Map.empty,
     open_files = [3 \<mapsto> the_file\<lparr>pos_of := 8\<rparr>],
     open_inodes = [7 \<mapsto> 100], replicate_path = ''/data/replica'', cfs_client_id = 1,
     heap = (\<lambda>a. zero_inode_info)(100 := the_inode), trace = [E_libc_lseek 3 8 0]\<rparr>"
  by (simp add: replica_at_eight_def real_lseek_def one_open_replica_def one_open_eq Let_def
      get_cfs_fd_def get_open_file_def emit_def put_file_def SEEK_SET_def word_sless_alt)

text \<open>
  The sentence of C1 as it is written fails when a replicate path is configured.
  \<^item> \<open>write\<close> of 4 bytes at cursor 8 of the 10-byte example file: the cache takes nothing,
    the SDK writes 4, the local replica answers 3. The call returns 3, a success with
    \<open>n = 3 > 0\<close>, and the cached size has become 12, which is not \<open>max 10 (8 + 3) = 11\<close>.
  \<^item> \<open>pwrite\<close> whose mirror \<open>libc_pwrite\<close> fails: the call returns that failure and the only
    call made is \<open>libc_pwrite\<close>; the data is never offered to the page cache.
\<close>

theorem write_replica_count_counterexample:
  "replicate_path replica_at_eight = ''/data/replica'' \<and>
   get_open_file replica_at_eight (get_cfs_fd replica_at_eight 0x40000003) =
     Some (the_file\<lparr>pos_of := 8\<rparr>) \<and>
   size_of (heap replica_at_eight 100) = 10 \<and>
   fst (real_write replica_at_eight 0x40000003 4 0 4 3) = 3 \<and>
   size_of (heap (snd (real_write replica_at_eight 0x40000003 4 0 4 3)) 100) = 12 \<and>
   size_of (heap (snd (real_write replica_at_eight 0x40000003 4 0 4 3)) 100) \<noteq>
     max (size_of (heap replica_at_eight 100)) (8 + 3) \<and>
   open_files (snd (real_write replica_at_eight 0x40000003 4 0 4 3)) 3 =
     Some (the_file\<lparr>pos_of := 12\<rparr>) \<and>
   real_pwrite one_open_replica 0x40000003 4 8 0 4 (- 1) =
     (- 1, one_open_replica\<lparr>trace := [E_libc_pwrite 3 4 8]\<rparr>)"
  by (simp add: replica_at_eight_eq real_write_def real_pwrite_def one_open_replica_def one_open_eq
      write_data_result put_file_def update_inode_size_def emit_def get_open_file_def
      get_cfs_fd_def the_file_def the_inode_def cfs_errno_ssize_t_def O_APPEND_def Let_def
      word_sless_alt)

text \<open>
  C1, amended. Let \<open>write\<close> or \<open>pwrite\<close> be called on a tagged descriptor that has an
  open file \<open>f\<close>, whose inode object is \<open>a\<close>, and write \<open>n\<close> for the number of bytes that
  the page cache (when it took them all and the inode is not write-through) or else the
  SDK reports as written.
  \<^item> \<open>write\<close>: the first call made is \<open>write_cache\<close> with the cursor (the cached size in
    append mode) and the whole \<open>count\<close>; if the inode is write-through or the cache took
    fewer than \<open>count\<close> bytes, \<open>cfs_pwrite\<close> is called next for the same offset and the whole
    \<open>count\<close> (after the range was cleared from the cache in the second case), and
    otherwise it is not called; if \<open>n > 0\<close> the cached size becomes
    \<open>max old_size (offset + n)\<close> and the cursor \<open>offset + n\<close>, and otherwise the inode
    objects are unchanged. The value returned is \<open>n\<close>, except that with a replicate path
    and \<open>n > 0\<close> it is the count that \<open>libc_write\<close> on the replica reports, whatever was
    stored as the cached size.
  \<^item> \<open>pwrite\<close>, when no replicate path is configured or the mirror \<open>libc_pwrite\<close> did not
    fail: the same calls in the same order at the given offset (after the mirror call), the
    same update of the cached size, and the value returned is \<open>n\<close>.
  \<^item> \<open>pwrite\<close> whose mirror \<open>libc_pwrite\<close> failed: that failure is returned and
    \<open>libc_pwrite\<close> is the only call made; nothing is offered to the page cache and nothing
    else is changed.
\<close>

theorem write_cache_then_backend:
  assumes "g_hook s" "fd_in_cfs fd0" "\<not> fd0 <s 0"
    and "get_open_file s (get_cfs_fd s fd0) = Some f"
  shows
   "(let fd = get_cfs_fd s fd0; a = inode_info f;
        wt = (FILE_CACHE_WRITE_THROUGH \<in> cache_flag (heap s a) \<or> re_cache < count);
        n = (if wt then cfs_errno_ssize_t cfs_re else re_cache);
        off = (if flags_of f AND O_APPEND \<noteq> 0 then size_of (heap s a) else pos_of f);
        s' = snd (real_write s fd0 count re_cache cfs_re re_local)
    in new_events s s' =
         [E_write_cache a off count] @
         (if wt then (if re_cache < count then [E_clear_inode_range a off count] else []) @
                     [E_cfs_pwrite fd count off]
          else []) @
         (if 0 <s n \<and> replicate_path s \<noteq> [] then [E_libc_write fd count] else []) \<and>
       (0 <s n \<longrightarrow> size_of (heap s' a) = max (size_of (heap s a)) (off + n)) \<and>
       (\<not> 0 <s n \<longrightarrow> heap s' = heap s) \<and>
       (replicate_path s = [] \<or> re_local = n \<or> \<not> 0 <s n \<longrightarrow>
          fst (real_write s fd0 count re_cache cfs_re re_local) = n) \<and>
       open_files s' = (open_files s)(fd \<mapsto> f\<lparr>pos_of := (if 0 <s n then off + n else off)\<rparr>)) \<and>
    fst (real_write s fd0 count re_cache cfs_re re_local) =
      (if 0 <s (if FILE_CACHE_WRITE_THROUGH \<in> cache_flag (heap s (inode_info f)) \<or> re_cache < count
                then cfs_errno_ssize_t cfs_re else re_cache) \<and> replicate_path s \<noteq> []
       then re_local
       else (if FILE_CACHE_WRITE_THROUGH \<in> cache_flag (heap s (inode_info f)) \<or> re_cache < count
             then cfs_errno_ssize_t cfs_re else re_cache)) \<and>
    (\<not> (replicate_path s \<noteq> [] \<and> libc_re <s 0) \<longrightarrow>
     (let fd = get_cfs_fd s fd0; a = inode_info f;
        wt = (FILE_CACHE_WRITE_THROUGH \<in> cache_flag (heap s a) \<or> re_cache < count);
        n = (if wt then cfs_errno_ssize_t cfs_re else re_cache);
        s' = snd (real_pwrite s fd0 count offset re_cache cfs_re libc_re)
      in new_events s s' =
         (if replicate_path s \<noteq> [] then [E_libc_pwrite fd count offset] else []) @
         [E_write_cache a offset count] @
         (if wt then (if re_cache < count then [E_clear_inode_range a offset count] else []) @
                     [E_cfs_pwrite fd count offset]
          else []) \<and>
       (0 <s n \<longrightarrow> size_of (heap s' a) = max (size_of (heap s a)) (offset + n)) \<and>
       (\<not> 0 <s n \<longrightarrow> heap s' = heap s) \<and>
       fst (real_pwrite s fd0 count offset re_cache cfs_re libc_re) = n)) \<and>
    (replicate_path s \<noteq> [] \<and> libc_re <s 0 \<longrightarrow>
       real_pwrite s fd0 count offset re_cache cfs_re libc_re =
         (libc_re, emit (E_libc_pwrite (get_cfs_fd s fd0) count offset) s) \<and>
       new_events s (snd (real_pwrite s fd0 count offset re_cache cfs_re libc_re)) =
         [E_libc_pwrite (get_cfs_fd s fd0) count offset])"
proof (intro conjI)
  show "let fd = get_cfs_fd s fd0; a = inode_info f;
        wt = (FILE_CACHE_WRITE_THROUGH \<in> cache_flag (heap s a) \<or> re_cache < count);
        n = (if wt then cfs_errno_ssize_t cfs_re else re_cache);
        off = (if flags_of f AND O_APPEND \<noteq> 0 then size_of (heap s a) else pos_of f);
        s' = snd (real_write s fd0 count re_cache cfs_re re_local)
    in new_events s s' =
         [E_write_cache a off count] @
         (if wt then (if re_cache < count then [E_clear_inode_range a off count] else []) @
                     [E_cfs_pwrite fd count off]
          else []) @
         (if 0 <s n \<and> replicate_path s \<noteq> [] then [E_libc_write fd count] else []) \<and>
       (0 <s n \<longrightarrow> size_of (heap s' a) = max (size_of (heap s a)) (off + n)) \<and>
       (\<not> 0 <s n \<longrightarrow> heap s' = heap s) \<and>
       (replicate_path s = [] \<or> re_local = n \<or> \<not> 0 <s n \<longrightarrow>
          fst (real_write s fd0 count re_cache cfs_re re_local) = n) \<and>
       open_files s' = (open_files s)(fd \<mapsto> f\<lparr>pos_of := (if 0 <s n then off + n else off)\<rparr>)"
    by (rule real_write_open[OF assms])
next
  show "fst (real_write s fd0 count re_cache cfs_re re_local) =
      (if 0 <s (if FILE_CACHE_WRITE_THROUGH \<in> cache_flag (heap s (inode_info f)) \<or> re_cache < count
                then cfs_errno_ssize_t cfs_re else re_cache) \<and> replicate_path s \<noteq> []
       then re_local
       else (if FILE_CACHE_WRITE_THROUGH \<in> cache_flag (heap s (inode_info f)) \<or> re_cache < count
             then cfs_errno_ssize_t cfs_re else re_cache))"
    by (rule real_write_return[OF assms])
next
  show "\<not> (replicate_path s \<noteq> [] \<and> libc_re <s 0) \<longrightarrow>
     (let fd = get_cfs_fd s fd0; a = inode_info f;
        wt = (FILE_CACHE_WRITE_THROUGH \<in> cache_flag (heap s a) \<or> re_cache < count);
        n = (if wt then cfs_errno_ssize_t cfs_re else re_cache);
        s' = snd (real_pwrite s fd0 count offset re_cache cfs_re libc_re)
      in new_events s s' =
         (if replicate_path s \<noteq> [] then [E_libc_pwrite fd count offset] else []) @
         [E_write_cache a offset count] @
         (if wt then (if re_cache < count then [E_clear_inode_range a offset count] else []) @
                     [E_cfs_pwrite fd count offset]
          else []) \<and>
       (0 <s n \<longrightarrow> size_of (heap s' a) = max (size_of (heap s a)) (offset + n)) \<and>
       (\<not> 0 <s n \<longrightarrow> heap s' = heap s) \<and>
       fst (real_pwrite s fd0 count offset re_cache cfs_re libc_re) = n)"
  proof
    assume m: "\<not> (replicate_path s \<noteq> [] \<and> libc_re <s 0)"
    show "let fd = get_cfs_fd s fd0; a = inode_info f;
        wt = (FILE_CACHE_WRITE_THROUGH \<in> cache_flag (heap s a) \<or> re_cache < count);
        n = (if wt then cfs_errno_ssize_t cfs_re else re_cache);
        s' = snd (real_pwrite s fd0 count offset re_cache cfs_re libc_re)
      in new_events s s' =
         (if replicate_path s \<noteq> [] then [E_libc_pwrite fd count offset] else []) @
         [E_write_cache a offset count] @
         (if wt then (if re_cache < count then [E_clear_inode_range a offset count] else []) @
                     [E_cfs_pwrite fd count offset]
          else []) \<and>
       (0 <s n \<longrightarrow> size_of (heap s' a) = max (size_of (heap s a)) (offset + n)) \<and>
       (\<not> 0 <s n \<longrightarrow> heap s' = heap s) \<and>
       fst (real_pwrite s fd0 count offset re_cache cfs_re libc_re) = n"
      by (rule real_pwrite_open[OF assms m])
  qed
next
  show "replicate_path s \<noteq> [] \<and> libc_re <s 0 \<longrightarrow>
       real_pwrite s fd0 count offset re_cache cfs_re libc_re =
         (libc_re, emit (E_libc_pwrite (get_cfs_fd s fd0) count offset) s) \<and>
       new_events s (snd (real_pwrite s fd0 count offset re_cache cfs_re libc_re)) =
         [E_libc_pwrite (get_cfs_fd s fd0) count offset]"
  proof
    assume m: "replicate_path s \<noteq> [] \<and> libc_re <s 0"
    show "real_pwrite s fd0 count offset re_cache cfs_re libc_re =
         (libc_re, emit (E_libc_pwrite (get_cfs_fd s fd0) count offset) s) \<and>
       new_events s (snd (real_pwrite s fd0 count offset re_cache cfs_re libc_re)) =
         [E_libc_pwrite (get_cfs_fd s fd0) count offset]"
      using real_pwrite_mirror_failure[OF assms(1-3) m] by blast
  qed
qed

text \<open>
  In the example without a replicate path: four bytes that the cache does not take are
  written through at offset 8 of the 10-byte file, and the cached size becomes 12. In
  the example with one: \<open>write\<close> returns the 3 of the replica although the SDK wrote 4, and
  a \<open>pwrite\<close> whose mirror call fails calls nothing else.
\<close>

theorem write_cache_then_backend_witness:
  "g_hook one_open \<and> fd_in_cfs 0x40000003 \<and> \<not> (0x40000003 :: fd_t) <s 0 \<and>
   get_open_file one_open (get_cfs_fd one_open 0x40000003) = Some the_file \<and>
   new_events one_open (snd (real_pwrite one_open 0x40000003 4 8 0 4 0)) =
     [E_write_cache 100 8 4, E_clear_inode_range 100 8 4, E_cfs_pwrite 3 4 8] \<and>
   size_of (heap (snd (real_pwrite one_open 0x40000003 4 8 0 4 0)) 100) = 12 \<and>
   fst (real_pwrite one_open 0x40000003 4 8 0 4 0) = 4 \<and>
   new_events one_open (snd (real_write one_open 0x40000003 4 0 4 0)) =
     [E_write_cache 100 0 4, E_clear_inode_range 100 0 4, E_cfs_pwrite 3 4 0] \<and>
   size_of (heap (snd (real_write one_open 0x40000003 4 0 4 0)) 100) = 10 \<and>
   fst (real_write one_open 0x40000003 4 0 4 0) = 4 \<and>
   g_hook one_open_replica \<and> replicate_path one_open_replica \<noteq> [] \<and>
   get_open_file one_open_replica (get_cfs_fd one_open_replica 0x40000003) = Some the_file \<and>
   fst (real_write one_open_replica 0x40000003 4 0 4 3) = 3 \<and>
   new_events one_open_replica (snd (real_write one_open_replica 0x40000003 4 0 4 3)) =
     [E_write_cache 100 0 4, E_clear_inode_range 100 0 4, E_cfs_pwrite 3 4 0, E_libc_write 3 4] \<and>
   real_pwrite one_open_replica 0x40000003 4 8 0 4 (- 1) =
     (- 1, emit (E_libc_pwrite 3 4 8) one_open_replica)"
  using write_cache_then_backend[where s = one_open and ?fd0.0 = "0x40000003" and f = the_file
      and re_cache = 0 and count = 4 and cfs_re = 4 and re_local = 0 and libc_re = 0 and offset = 8]
    write_cache_then_backend[where s = one_open_replica and ?fd0.0 = "0x40000003" and f = the_file
      and re_cache = 0 and count = 4 and cfs_re = 4 and re_local = 3 and libc_re = "- 1"
      and offset = 8]
    one_open_facts one_open_replica_facts
  by (simp add: the_file_def the_inode_def cfs_errno_ssize_t_def O_APPEND_def Let_def
      word_sless_alt)

section \<open>Append mode\<close>




section \<open>The read path: refresh, network fetch and fallback\<close>

lemma cfs_pread_sock_result:
  "cfs_pread_sock s fd count offset hr env =
     (if fallback_due count hr env then pread_ans env else fst (per_extent env),
      s\<lparr>trace := trace s @ E_cfs_read_requests fd count offset # snd (snd (per_extent env)) @
                  (if fallback_due count hr env then [E_cfs_pread fd count offset] else [])\<rparr>)"
  by (simp add: cfs_pread_sock_def fallback_due_def per_extent_def emit_def split_beta Let_def)



lemma read_data_result:
  "read_data s fd f offset count env =
     (let a = inode_info f;
          due = refresh_due s f offset count env;
          net = network_due s f offset count env;
          nc = capped_count (size_seen s f offset count env) offset count;
          fb = fallback_due nc due env
      in (if net then cfs_errno_ssize_t (if fb then pread_ans env else fst (per_extent env))
          else cache_ans env,
          s\<lparr>heap := (if due then (heap s)(a := (heap s a)\<lparr>size_of := max (size_of (heap s a)) (refresh_ans env)\<rparr>)
                      else heap s),
            trace := trace s @ [E_read_cache a offset count] @
              (if due then [E_flush_inode a, E_cfs_flush fd, E_cfs_refresh_eks (inode_of (heap s a))]
               else []) @
              (if net then [E_flush_inode_range a offset count, E_cfs_flush fd,
                            E_cfs_read_requests fd nc offset] @ snd (snd (per_extent env)) @
                           (if fb then [E_cfs_pread fd nc offset] else [])
               else [])\<rparr>))"
proof (cases "refresh_due s f offset count env")
  case due: True
  hence d: "cache_ans env < count" "size_of (heap s (inode_info f)) \<le> offset + count"
    "file_type f \<noteq> FILE_TYPE_BIN_LOG" by (simp_all add: refresh_due_def)
  have ss: "size_seen s f offset count env = refresh_ans env" using due by (simp add: size_seen_def)
  show ?thesis
  proof (cases "offset + cache_ans env < refresh_ans env")
    case True
    hence net: "network_due s f offset count env" using d(1) ss by (simp add: network_due_def)
    show ?thesis
      using due d True net ss
      by (simp add: read_data_def Let_def cfs_pread_sock_result capped_count_def emit_def
          update_inode_size_def)
  next
    case False
    hence net: "\<not> network_due s f offset count env" using ss by (simp add: network_due_def)
    show ?thesis
      using due d False net ss
      by (simp add: read_data_def Let_def emit_def update_inode_size_def)
  qed
next
  case ndue: False
  hence nd: "\<not> (cache_ans env < count \<and> size_of (heap s (inode_info f)) \<le> offset + count \<and>
    file_type f \<noteq> FILE_TYPE_BIN_LOG)" by (simp add: refresh_due_def)
  have ss: "size_seen s f offset count env = size_of (heap s (inode_info f))"
    using ndue by (simp add: size_seen_def)
  show ?thesis
  proof (cases "cache_ans env < count \<and> offset + cache_ans env < size_of (heap s (inode_info f))")
    case True
    hence net: "network_due s f offset count env" using ss by (simp add: network_due_def)
    show ?thesis
      using ndue nd True net ss
      by (auto simp: read_data_def Let_def cfs_pread_sock_result capped_count_def emit_def)
  next
    case False
    hence net: "\<not> network_due s f offset count env" using ss by (simp add: network_due_def)
    show ?thesis
      using ndue nd False net ss
      by (auto simp: read_data_def Let_def emit_def)
  qed
qed

lemma check_local_result:
  "check_local s offset re rl env =
     (if local_differs re rl env then Exited 1 else Returned re,
      s\<lparr>trace := trace s @ (if local_differs re rl env then fatal_events offset re rl else [])\<rparr>)"
  by (simp add: check_local_def local_differs_def fatal_events_def Let_def emit_def)

lemma is_refresh_simps [simp]:
  "is_refresh (E_cfs_refresh_eks i)" "\<not> is_refresh (E_read_cache a off c)"
  "\<not> is_refresh (E_flush_inode_range a off c)" "\<not> is_refresh (E_cfs_flush fd)"
  "\<not> is_refresh (E_cfs_read_requests fd c off)" "\<not> is_refresh (E_cfs_pread fd c off)"
  "\<not> is_refresh (E_find_diff_data off n)" "\<not> is_refresh E_cfs_flush_log" "\<not> is_refresh (E_exit k)"
  "\<not> is_refresh (E_libc_lseek fd off w)" "\<not> is_refresh (E_libc_read fd c)"
  "\<not> is_refresh (E_libc_pread fd c off)" "\<not> is_refresh (E_flush_inode a)"
  by (simp_all add: is_refresh_def)

lemma sock_event_not_refresh: "sock_event e \<Longrightarrow> \<not> is_refresh e"
  by (cases e) (simp_all add: sock_event_def is_refresh_def)

lemma sock_event_simps [simp]:
  "sock_event (E_memset a b)" "sock_event (E_get_conn h p)" "sock_event (E_write_sock k)"
  "sock_event (E_get_read_reply k)" "sock_event (E_put_conn h p k)" "sock_event (E_close_sock k)"
  by (simp_all add: sock_event_def)

lemma read_sock_loop_events: "\<forall>e \<in> set (snd (snd (read_sock_loop rs rd))). sock_event e"
  by (induction rs rd rule: read_sock_loop.induct) (auto simp: Let_def split_beta)

lemma per_extent_not_refresh: "\<forall>e \<in> set (snd (snd (per_extent env))). \<not> is_refresh e"
  using read_sock_loop_events sock_event_not_refresh unfolding per_extent_def by blast

text \<open>The calls of \<open>read_data\<close> after the refresh step.\<close>

lemma read_data_shape:
  "\<exists>rest. (\<forall>e \<in> set rest. \<not> is_refresh e) \<and>
     trace (snd (read_data s fd f offset count env)) =
       trace s @ [E_read_cache (inode_info f) offset count] @
       (if refresh_due s f offset count env
        then [E_flush_inode (inode_info f), E_cfs_flush fd,
              E_cfs_refresh_eks (inode_of (heap s (inode_info f)))] else []) @ rest"
proof -
  let ?nc = "capped_count (size_seen s f offset count env) offset count"
  let ?fb = "fallback_due ?nc (refresh_due s f offset count env) env"
  let ?rest = "(if network_due s f offset count env
               then [E_flush_inode_range (inode_info f) offset count, E_cfs_flush fd,
                     E_cfs_read_requests fd ?nc offset] @ snd (snd (per_extent env)) @
                    (if ?fb then [E_cfs_pread fd ?nc offset] else [])
               else [])"
  have "\<forall>e \<in> set ?rest. \<not> is_refresh e"
    using per_extent_not_refresh[of env] by auto
  moreover have "trace (snd (read_data s fd f offset count env)) =
       trace s @ [E_read_cache (inode_info f) offset count] @
       (if refresh_due s f offset count env
        then [E_flush_inode (inode_info f), E_cfs_flush fd,
              E_cfs_refresh_eks (inode_of (heap s (inode_info f)))] else []) @ ?rest"
    by (simp add: read_data_result Let_def)
  ultimately show ?thesis by blast
qed

lemma read_data_fields:
  "heap (snd (read_data s fd f offset count env)) =
     (if refresh_due s f offset count env
      then (heap s)(inode_info f := (heap s (inode_info f))
             \<lparr>size_of := max (size_of (heap s (inode_info f))) (refresh_ans env)\<rparr>)
      else heap s)"
  "replicate_path (snd (read_data s fd f offset count env)) = replicate_path s"
  "open_files (snd (read_data s fd f offset count env)) = open_files s"
  by (simp_all add: read_data_result Let_def)

lemma fatal_not_refresh: "\<forall>e \<in> set (fatal_events offset re rl). \<not> is_refresh e"
  by (simp add: fatal_events_def)

lemma refresh_due_heap:
  "heap s0 = heap s \<Longrightarrow> refresh_due s0 f offset count env = refresh_due s f offset count env"
  by (simp add: refresh_due_def)

lemma real_read_unfold:
  assumes "g_hook s" "fd_in_cfs fd0" "\<not> fd0 <s 0"
    and "get_open_file s (get_cfs_fd s fd0) = Some f"
    and "replicate_path s = [] \<or> (malloc_ok env \<and> \<not> lseek_ans env <s 0)"
  shows "real_read s fd0 count env =
     (let fd = get_cfs_fd s fd0;
          s0 = (if replicate_path s \<noteq> []
                then s\<lparr>trace := trace s @ [E_libc_lseek fd (pos_of f) SEEK_SET, E_libc_read fd count]\<rparr>
                else s);
          re = fst (read_data s0 fd f (pos_of f) count env);
          s1 = snd (read_data s0 fd f (pos_of f) count env);
          s2 = (if 0 <s re then put_file s1 fd (f\<lparr>pos_of := pos_of f + re\<rparr>) else s1)
      in if replicate_path s \<noteq> [] then check_local s2 (pos_of f) re (local_ans env) env
         else (Returned re, s2))"
  using assms
  by (auto simp: real_read_def Let_def split_beta emit_def put_file_def read_data_fields)

lemma real_pread_unfold:
  assumes "g_hook s" "fd_in_cfs fd0" "\<not> fd0 <s 0"
    and "get_open_file s (get_cfs_fd s fd0) = Some f"
    and "replicate_path s = [] \<or> malloc_ok env"
  shows "real_pread s fd0 count offset env =
     (let fd = get_cfs_fd s fd0;
          s0 = (if replicate_path s \<noteq> []
                then s\<lparr>trace := trace s @ [E_libc_pread fd count offset]\<rparr>
                else s);
          re = fst (read_data s0 fd f offset count env);
          s1 = snd (read_data s0 fd f offset count env)
      in if replicate_path s \<noteq> [] then check_local s1 offset re (local_ans env) env
         else (Returned re, s1))"
  using assms
  by (auto simp: real_pread_def Let_def split_beta emit_def get_open_file_def read_data_fields)

lemma real_read_shape:
  assumes "g_hook s" "fd_in_cfs fd0" "\<not> fd0 <s 0"
    and "get_open_file s (get_cfs_fd s fd0) = Some f"
    and "replicate_path s = [] \<or> (malloc_ok env \<and> \<not> lseek_ans env <s 0)"
  shows "\<exists>rest. (\<forall>e \<in> set rest. \<not> is_refresh e) \<and>
     new_events s (snd (real_read s fd0 count env)) =
       (if replicate_path s \<noteq> []
        then [E_libc_lseek (get_cfs_fd s fd0) (pos_of f) SEEK_SET, E_libc_read (get_cfs_fd s fd0) count]
        else []) @
       [E_read_cache (inode_info f) (pos_of f) count] @
       (if refresh_due s f (pos_of f) count env
        then [E_flush_inode (inode_info f), E_cfs_flush (get_cfs_fd s fd0),
              E_cfs_refresh_eks (inode_of (heap s (inode_info f)))] else []) @ rest"
    and "heap (snd (real_read s fd0 count env)) =
     (if refresh_due s f (pos_of f) count env
      then (heap s)(inode_info f := (heap s (inode_info f))
             \<lparr>size_of := max (size_of (heap s (inode_info f))) (refresh_ans env)\<rparr>)
      else heap s)"
proof -
  let ?fd = "get_cfs_fd s fd0"
  let ?mir = "(if replicate_path s \<noteq> []
        then [E_libc_lseek ?fd (pos_of f) SEEK_SET, E_libc_read ?fd count] else [])"
  let ?s0 = "(if replicate_path s \<noteq> []
                then s\<lparr>trace := trace s @ [E_libc_lseek ?fd (pos_of f) SEEK_SET, E_libc_read ?fd count]\<rparr>
                else s)"
  let ?re = "fst (read_data ?s0 ?fd f (pos_of f) count env)"
  let ?s1 = "snd (read_data ?s0 ?fd f (pos_of f) count env)"
  let ?s2 = "(if 0 <s ?re then put_file ?s1 ?fd (f\<lparr>pos_of := pos_of f + ?re\<rparr>) else ?s1)"
  let ?ce = "(if replicate_path s \<noteq> [] \<and> local_differs ?re (local_ans env) env
              then fatal_events (pos_of f) ?re (local_ans env) else [])"
  have h0: "heap ?s0 = heap s" and t0: "trace ?s0 = trace s @ ?mir" by simp_all
  have due: "refresh_due ?s0 f (pos_of f) count env = refresh_due s f (pos_of f) count env"
    using h0 by (rule refresh_due_heap)
  obtain rest where r: "\<forall>e \<in> set rest. \<not> is_refresh e"
    and t1: "trace ?s1 = trace ?s0 @ [E_read_cache (inode_info f) (pos_of f) count] @
       (if refresh_due ?s0 f (pos_of f) count env
        then [E_flush_inode (inode_info f), E_cfs_flush ?fd,
              E_cfs_refresh_eks (inode_of (heap ?s0 (inode_info f)))] else []) @ rest"
    using read_data_shape[of ?s0 ?fd f "pos_of f" count env] by blast
  have t2: "trace ?s2 = trace ?s1" and h2: "heap ?s2 = heap ?s1" by (simp_all add: put_file_def)
  have fin: "snd (real_read s fd0 count env) =
      (if replicate_path s \<noteq> [] then snd (check_local ?s2 (pos_of f) ?re (local_ans env) env) else ?s2)"
    unfolding real_read_unfold[OF assms] Let_def by simp
  have tf: "trace (snd (real_read s fd0 count env)) = trace ?s2 @ ?ce"
    unfolding fin by (simp add: check_local_result)
  have hf: "heap (snd (real_read s fd0 count env)) = heap ?s2"
    unfolding fin by (simp add: check_local_result)
  have ce: "\<forall>e \<in> set (rest @ ?ce). \<not> is_refresh e"
    using r fatal_not_refresh by auto
  have "new_events s (snd (real_read s fd0 count env)) =
       ?mir @ [E_read_cache (inode_info f) (pos_of f) count] @
       (if refresh_due s f (pos_of f) count env
        then [E_flush_inode (inode_info f), E_cfs_flush ?fd,
              E_cfs_refresh_eks (inode_of (heap s (inode_info f)))] else []) @ (rest @ ?ce)"
    unfolding new_events_def tf t2 t1 t0 due h0 by simp
  with ce show "\<exists>rest. (\<forall>e \<in> set rest. \<not> is_refresh e) \<and>
     new_events s (snd (real_read s fd0 count env)) =
       ?mir @ [E_read_cache (inode_info f) (pos_of f) count] @
       (if refresh_due s f (pos_of f) count env
        then [E_flush_inode (inode_info f), E_cfs_flush ?fd,
              E_cfs_refresh_eks (inode_of (heap s (inode_info f)))] else []) @ rest"
    by blast
  show "heap (snd (real_read s fd0 count env)) =
     (if refresh_due s f (pos_of f) count env
      then (heap s)(inode_info f := (heap s (inode_info f))
             \<lparr>size_of := max (size_of (heap s (inode_info f))) (refresh_ans env)\<rparr>)
      else heap s)"
    unfolding hf h2 read_data_fields(1) due h0 ..
qed

lemma real_pread_shape:
  assumes "g_hook s" "fd_in_cfs fd0" "\<not> fd0 <s 0"
    and "get_open_file s (get_cfs_fd s fd0) = Some f"
    and "replicate_path s = [] \<or> malloc_ok env"
  shows "\<exists>rest. (\<forall>e \<in> set rest. \<not> is_refresh e) \<and>
     new_events s (snd (real_pread s fd0 count offset env)) =
       (if replicate_path s \<noteq> [] then [E_libc_pread (get_cfs_fd s fd0) count offset] else []) @
       [E_read_cache (inode_info f) offset count] @
       (if refresh_due s f offset count env
        then [E_flush_inode (inode_info f), E_cfs_flush (get_cfs_fd s fd0),
              E_cfs_refresh_eks (inode_of (heap s (inode_info f)))] else []) @ rest"
    and "heap (snd (real_pread s fd0 count offset env)) =
     (if refresh_due s f offset count env
      then (heap s)(inode_info f := (heap s (inode_info f))
             \<lparr>size_of := max (size_of (heap s (inode_info f))) (refresh_ans env)\<rparr>)
      else heap s)"
proof -
  let ?fd = "get_cfs_fd s fd0"
  let ?mir = "(if replicate_path s \<noteq> [] then [E_libc_pread ?fd count offset] else [])"
  let ?s0 = "(if replicate_path s \<noteq> []
                then s\<lparr>trace := trace s @ [E_libc_pread ?fd count offset]\<rparr> else s)"
  let ?re = "fst (read_data ?s0 ?fd f offset count env)"
  let ?s1 = "snd (read_data ?s0 ?fd f offset count env)"
  let ?ce = "(if replicate_path s \<noteq> [] \<and> local_differs ?re (local_ans env) env
              then fatal_events offset ?re (local_ans env) else [])"
  have h0: "heap ?s0 = heap s" and t0: "trace ?s0 = trace s @ ?mir" by simp_all
  have due: "refresh_due ?s0 f offset count env = refresh_due s f offset count env"
    using h0 by (rule refresh_due_heap)
  obtain rest where r: "\<forall>e \<in> set rest. \<not> is_refresh e"
    and t1: "trace ?s1 = trace ?s0 @ [E_read_cache (inode_info f) offset count] @
       (if refresh_due ?s0 f offset count env
        then [E_flush_inode (inode_info f), E_cfs_flush ?fd,
              E_cfs_refresh_eks (inode_of (heap ?s0 (inode_info f)))] else []) @ rest"
    using read_data_shape[of ?s0 ?fd f offset count env] by blast
  have fin: "snd (real_pread s fd0 count offset env) =
      (if replicate_path s \<noteq> [] then snd (check_local ?s1 offset ?re (local_ans env) env) else ?s1)"
    unfolding real_pread_unfold[OF assms] Let_def by simp
  have tf: "trace (snd (real_pread s fd0 count offset env)) = trace ?s1 @ ?ce"
    unfolding fin by (simp add: check_local_result)
  have hf: "heap (snd (real_pread s fd0 count offset env)) = heap ?s1"
    unfolding fin by (simp add: check_local_result)
  have ce: "\<forall>e \<in> set (rest @ ?ce). \<not> is_refresh e"
    using r fatal_not_refresh by auto
  have "new_events s (snd (real_pread s fd0 count offset env)) =
       ?mir @ [E_read_cache (inode_info f) offset count] @
       (if refresh_due s f offset count env
        then [E_flush_inode (inode_info f), E_cfs_flush ?fd,
              E_cfs_refresh_eks (inode_of (heap s (inode_info f)))] else []) @ (rest @ ?ce)"
    unfolding new_events_def tf t1 t0 due h0 by simp
  with ce show "\<exists>rest. (\<forall>e \<in> set rest. \<not> is_refresh e) \<and>
     new_events s (snd (real_pread s fd0 count offset env)) =
       ?mir @ [E_read_cache (inode_info f) offset count] @
       (if refresh_due s f offset count env
        then [E_flush_inode (inode_info f), E_cfs_flush ?fd,
              E_cfs_refresh_eks (inode_of (heap s (inode_info f)))] else []) @ rest"
    by blast
  show "heap (snd (real_pread s fd0 count offset env)) =
     (if refresh_due s f offset count env
      then (heap s)(inode_info f := (heap s (inode_info f))
             \<lparr>size_of := max (size_of (heap s (inode_info f))) (refresh_ans env)\<rparr>)
      else heap s)"
    unfolding hf read_data_fields(1) due h0 ..
qed


section \<open>The refresh of the extent keys\<close>

lemma shape_refresh_behaviour:
  assumes sh: "\<exists>rest. (\<forall>e \<in> set rest. \<not> is_refresh e) \<and>
       new_events s s' = mirror @ [E_read_cache (inode_info f) offset count] @
         (if refresh_due s f offset count env
          then [E_flush_inode (inode_info f), E_cfs_flush fd,
                E_cfs_refresh_eks (inode_of (heap s (inode_info f)))] else []) @ rest"
    and hp: "heap s' =
       (if refresh_due s f offset count env
        then (heap s)(inode_info f := (heap s (inode_info f))
               \<lparr>size_of := max (size_of (heap s (inode_info f))) (refresh_ans env)\<rparr>)
        else heap s)"
    and mir: "\<forall>e \<in> set mirror. \<not> is_refresh e"
  shows "refresh_behaviour s f fd offset count env mirror s'"
proof (cases "refresh_due s f offset count env")
  case True
  from sh True obtain rest where
    "new_events s s' = mirror @ [E_read_cache (inode_info f) offset count, E_flush_inode (inode_info f),
        E_cfs_flush fd, E_cfs_refresh_eks (inode_of (heap s (inode_info f)))] @ rest"
    by auto
  hence ex: "\<exists>rest. new_events s s' = mirror @ [E_read_cache (inode_info f) offset count,
        E_flush_inode (inode_info f), E_cfs_flush fd,
        E_cfs_refresh_eks (inode_of (heap s (inode_info f)))] @ rest" by blast
  have sz: "size_of (heap s' (inode_info f)) = max (size_of (heap s (inode_info f))) (refresh_ans env)"
    using hp True by simp
  have c: "cache_ans env < count" "size_of (heap s (inode_info f)) \<le> offset + count"
    "file_type f \<noteq> FILE_TYPE_BIN_LOG"
    using True by (simp_all add: refresh_due_def)
  show ?thesis
    unfolding refresh_behaviour_def Let_def using ex sz c by blast
next
  case False
  from sh False obtain rest where r: "\<forall>e \<in> set rest. \<not> is_refresh e"
    and ne: "new_events s s' = mirror @ [E_read_cache (inode_info f) offset count] @ rest"
    by auto
  have "\<forall>e \<in> set (new_events s s'). \<not> is_refresh e"
    unfolding ne using r mir by auto
  hence no: "\<forall>i. E_cfs_refresh_eks i \<notin> set (new_events s s')"
    using is_refresh_simps(1) by blast
  have h: "heap s' = heap s" using hp False by simp
  have nc: "\<not> (cache_ans env < count \<and> size_of (heap s (inode_info f)) \<le> offset + count \<and>
    file_type f \<noteq> FILE_TYPE_BIN_LOG)"
    using False by (simp add: refresh_due_def)
  show ?thesis
    unfolding refresh_behaviour_def Let_def using no h nc by blast
qed

text \<open>
  The sentence of C2 as it is written fails (with \<open>update_inode_size\<close> as the spec
  gives it): the example file has a cached size of 10; a \<open>read\<close> of 20 bytes at offset 0
  that the cache cannot serve refreshes the extent keys, the SDK reports a size of 5,
  and the cached size is still 10 afterwards, not the refreshed value.
\<close>

theorem refresh_never_shrinks_counterexample:
  "cache_ans shrink_env < 20 \<and> size_of (heap one_open 100) \<le> pos_of the_file + 20 \<and>
   file_type the_file \<noteq> FILE_TYPE_BIN_LOG \<and>
   E_cfs_refresh_eks 7 \<in> set (trace (snd (real_read one_open 0x40000003 20 shrink_env))) \<and>
   refresh_ans shrink_env = 5 \<and>
   size_of (heap (snd (real_read one_open 0x40000003 20 shrink_env)) 100) = 10 \<and>
   size_of (heap (snd (real_read one_open 0x40000003 20 shrink_env)) 100) \<noteq> refresh_ans shrink_env"
proof -
  have due: "refresh_due one_open the_file 0 20 shrink_env"
    by (simp add: refresh_due_def one_open_eq the_file_def the_inode_def shrink_env_def)
  have p: "pos_of the_file = 0" "inode_info the_file = 100" by (simp_all add: the_file_def)
  have m: "replicate_path one_open = [] \<or> (malloc_ok shrink_env \<and> \<not> lseek_ans shrink_env <s 0)"
    by (simp add: one_open_eq)
  note sh = real_read_shape[OF one_open_facts(1) tagged_3_in_cfs tagged_3_not_negative
      one_open_facts(3) m, of 20]
  from sh(1) obtain rest where
    "new_events one_open (snd (real_read one_open 0x40000003 20 shrink_env)) =
       [E_read_cache 100 0 20] @ [E_flush_inode 100, E_cfs_flush 3, E_cfs_refresh_eks 7] @ rest"
    using due p one_open_facts by (auto simp: the_inode_def)
  hence "E_cfs_refresh_eks 7 \<in> set (trace (snd (real_read one_open 0x40000003 20 shrink_env)))"
    by (simp add: new_events_def one_open_facts(6))
  moreover have "size_of (heap (snd (real_read one_open 0x40000003 20 shrink_env)) 100) = 10"
    using sh(2) due p one_open_facts(5) by (simp add: the_inode_def shrink_env_def)
  ultimately show ?thesis
    by (simp add: shrink_env_def one_open_facts the_inode_def the_file_def)
qed

text \<open>
  C2, amended. Let \<open>read\<close> or \<open>pread\<close> be called on a tagged descriptor with an open
  file (and let the allocation and the seek for the local replica, when a replicate
  path is configured, not fail). If the cache serves fewer bytes than \<open>count\<close>, the range
  reaches the cached size (\<open>size \<le> offset + count\<close>) and the file is not a binlog, then
  right after \<open>read_cache\<close> the calls \<open>flush_inode\<close>, \<open>cfs_flush\<close> and \<open>cfs_refresh_eks\<close>
  are made in this order, and the cached size becomes the larger of its old value and
  the refreshed one. Otherwise (a binlog, or the cache served everything, or the range
  ends below the cached size) \<open>cfs_refresh_eks\<close> is not called at all and the inode
  objects are unchanged.
\<close>

theorem refresh_on_short_read:
  assumes "g_hook s" "fd_in_cfs fd0" "\<not> fd0 <s 0"
    and "get_open_file s (get_cfs_fd s fd0) = Some f"
  shows
   "(replicate_path s = [] \<or> (malloc_ok env \<and> \<not> lseek_ans env <s 0) \<longrightarrow>
       refresh_behaviour s f (get_cfs_fd s fd0) (pos_of f) count env
         (if replicate_path s \<noteq> []
          then [E_libc_lseek (get_cfs_fd s fd0) (pos_of f) SEEK_SET, E_libc_read (get_cfs_fd s fd0) count]
          else [])
         (snd (real_read s fd0 count env))) \<and>
    (replicate_path s = [] \<or> malloc_ok env \<longrightarrow>
       refresh_behaviour s f (get_cfs_fd s fd0) offset count env
         (if replicate_path s \<noteq> [] then [E_libc_pread (get_cfs_fd s fd0) count offset] else [])
         (snd (real_pread s fd0 count offset env)))"
proof (intro conjI impI)
  assume m: "replicate_path s = [] \<or> (malloc_ok env \<and> \<not> lseek_ans env <s 0)"
  show "refresh_behaviour s f (get_cfs_fd s fd0) (pos_of f) count env
         (if replicate_path s \<noteq> []
          then [E_libc_lseek (get_cfs_fd s fd0) (pos_of f) SEEK_SET, E_libc_read (get_cfs_fd s fd0) count]
          else [])
         (snd (real_read s fd0 count env))"
    by (rule shape_refresh_behaviour[OF real_read_shape[OF assms m]]) auto
next
  assume m: "replicate_path s = [] \<or> malloc_ok env"
  show "refresh_behaviour s f (get_cfs_fd s fd0) offset count env
         (if replicate_path s \<noteq> [] then [E_libc_pread (get_cfs_fd s fd0) count offset] else [])
         (snd (real_pread s fd0 count offset env))"
    by (rule shape_refresh_behaviour[OF real_pread_shape[OF assms m]]) auto
qed

text \<open>In the example the refresh reports 30, and the cached size grows from 10 to 30.\<close>

theorem refresh_on_short_read_witness:
  "g_hook one_open \<and> fd_in_cfs 0x40000003 \<and> \<not> (0x40000003 :: fd_t) <s 0 \<and>
   get_open_file one_open (get_cfs_fd one_open 0x40000003) = Some the_file \<and>
   replicate_path one_open = [] \<and>
   cache_ans grow_env < 20 \<and> size_of (heap one_open 100) \<le> pos_of the_file + 20 \<and>
   file_type the_file \<noteq> FILE_TYPE_BIN_LOG \<and> refresh_ans grow_env = 30 \<and>
   size_of (heap (snd (real_read one_open 0x40000003 20 grow_env)) 100) = 30 \<and>
   size_of (heap (snd (real_pread one_open 0x40000003 20 0 grow_env)) 100) = 30"
  using refresh_on_short_read[OF one_open_facts(1) tagged_3_in_cfs tagged_3_not_negative
      one_open_facts(3), of grow_env 20 0]
    one_open_facts
  by (simp add: refresh_behaviour_def Let_def the_file_def the_inode_def grow_env_def shrink_env_def)

section \<open>The per-extent fetch and its fallback\<close>






















section \<open>The check against the local replica\<close>

text \<open>
  \<open>read\<close> and \<open>pread\<close> end the process exactly when both sides returned data and the
  first \<open>min(re_local, re)\<close> bytes differ.
\<close>

lemma real_read_compares_overlap:
  "fst (check_local s offset re re_local env) = Exited 1 \<longleftrightarrow>
     0 <s re_local \<and> 0 <s re \<and>
     take (unat (if re_local <s re then re_local else re)) (cfs_buf env) \<noteq>
     take (unat (if re_local <s re then re_local else re)) (local_buf env)"
  by (simp add: check_local_def Let_def memcmp_differs_def)

text \<open>
  C8 does not hold of \<open>readv\<close>: its loop compares every buffer over its whole \<open>iov_len\<close>,
  not over the bytes that were returned. At the end of a file, where the SDK and the
  local replica both return the same 2 bytes into 4-byte buffers, the bytes behind them
  are compared too, and the process is ended although the data agree.
\<close>

theorem readv_compares_whole_buffers:
  "take 2 (concat eof_iov) = take 2 (concat eof_iov_local) \<and>
   real_readv one_open_replica 0x40000003 2 eof_iov 0 2 eof_iov_local =
     (Exited 1,
      one_open_replica\<lparr>open_files := [3 \<mapsto> the_file\<lparr>pos_of := 2\<rparr>],
        trace := [E_cfs_preadv 3 0, E_libc_lseek 3 0 SEEK_SET, E_libc_readv 3,
                  E_find_diff_data 0 4, E_cfs_flush_log, E_exit 1]\<rparr>)"
  by (simp add: real_readv_def one_open_replica_def one_open_eq eof_iov_def eof_iov_local_def
      get_cfs_fd_def get_open_file_def the_file_def cfs_errno_ssize_t_def Let_def put_file_def
      emit_def memcmp_differs_def word_sless_alt word_sle_eq)


section \<open>The registry under two concurrent opens of one inode\<close>

lemma rii_steps_are_record_inode_info:
  "rii_step ino ftype sz new (rii_step ino ftype sz new (rii_step ino ftype sz new (RII_start, s))) =
     (RII_done (fst (record_inode_info s ino ftype sz new)), snd (record_inode_info s ino ftype sz new))"
  by (auto simp: rii_step_def record_inode_info_def Let_def split_beta
      split: option.splits prod.splits)

lemma rii_inv_step:
  assumes fresh: "a1 \<noteq> a2" "w0 \<noteq> Some a1" "w0 \<noteq> Some a2" and r0: "w0 = None \<longrightarrow> r0 = 0"
    and inv: "rii_inv ino a1 a2 w0 r0 (p1, p2, s)"
  shows "rii_inv ino a1 a2 w0 r0 (race_step ino ftype sz a1 a2 t (p1, p2, s))"
proof (cases t)
  case False
  show ?thesis
  proof (cases p1)
    case RII_start
    then show ?thesis using False fresh r0 inv
      by (auto simp: rii_inv_def race_step_def rii_step_def record_inode_info_find_def bump_fd_ref_def
          rii_returned_def rii_pc_ok_def split: option.splits rii_pc.splits)
  next
    case RII_missed
    then show ?thesis using False fresh r0 inv
      by (auto simp: rii_inv_def race_step_def rii_step_def record_inode_info_build_def new_inode_info_def
          rii_returned_def rii_pc_ok_def Let_def split: option.splits rii_pc.splits)
  next
    case (RII_built a)
    then show ?thesis using False fresh r0 inv
      by (auto simp: rii_inv_def race_step_def rii_step_def record_inode_info_insert_def bump_fd_ref_def
          emit_def rii_returned_def rii_pc_ok_def split: option.splits rii_pc.splits)
  next
    case (RII_done r)
    then show ?thesis using False inv
      by (auto simp: rii_inv_def race_step_def rii_step_def)
  qed
next
  case True
  show ?thesis
  proof (cases p2)
    case RII_start
    then show ?thesis using True fresh r0 inv
      by (auto simp: rii_inv_def race_step_def rii_step_def record_inode_info_find_def bump_fd_ref_def
          rii_returned_def rii_pc_ok_def split: option.splits rii_pc.splits)
  next
    case RII_missed
    then show ?thesis using True fresh r0 inv
      by (auto simp: rii_inv_def race_step_def rii_step_def record_inode_info_build_def new_inode_info_def
          rii_returned_def rii_pc_ok_def Let_def split: option.splits rii_pc.splits)
  next
    case (RII_built a)
    then show ?thesis using True fresh r0 inv
      by (auto simp: rii_inv_def race_step_def rii_step_def record_inode_info_insert_def bump_fd_ref_def
          emit_def rii_returned_def rii_pc_ok_def split: option.splits rii_pc.splits)
  next
    case (RII_done r)
    then show ?thesis using True inv
      by (auto simp: rii_inv_def race_step_def rii_step_def)
  qed
qed

lemma rii_inv_run:
  assumes fresh: "a1 \<noteq> a2" "w0 \<noteq> Some a1" "w0 \<noteq> Some a2" and r0: "w0 = None \<longrightarrow> r0 = 0"
  shows "rii_inv ino a1 a2 w0 r0 c \<Longrightarrow> rii_inv ino a1 a2 w0 r0 (race_run ino ftype sz a1 a2 ts c)"
proof (induction ts arbitrary: c)
  case Nil
  then show ?case by simp
next
  case (Cons t ts)
  obtain p1 p2 s where c: "c = (p1, p2, s)" by (cases c)
  have "rii_inv ino a1 a2 w0 r0 (race_step ino ftype sz a1 a2 t c)"
    using Cons.prems unfolding c by (rule rii_inv_step[OF fresh r0])
  then show ?case using Cons.IH by simp
qed

lemma rii_inv_start:
  "rii_inv ino a1 a2 (open_inodes s ino)
     (case open_inodes s ino of None \<Rightarrow> 0 | Some w \<Rightarrow> fd_ref (heap s w)) (RII_start, RII_start, s)"
  by (simp add: rii_inv_def rii_pc_ok_def rii_returned_def split: option.splits)

lemma race_step_other_inodes:
  "i \<noteq> ino \<Longrightarrow> open_inodes (snd (snd (race_step ino ftype sz a1 a2 t c))) i = open_inodes (snd (snd c)) i"
  by (cases c)
     (auto simp: race_step_def rii_step_def record_inode_info_find_def record_inode_info_build_def
        record_inode_info_insert_def bump_fd_ref_def emit_def Let_def
        split: option.splits rii_pc.splits)

lemma race_run_other_inodes:
  "i \<noteq> ino \<Longrightarrow> open_inodes (snd (snd (race_run ino ftype sz a1 a2 ts c))) i = open_inodes (snd (snd c)) i"
  by (induction ts arbitrary: c) (simp_all add: race_step_other_inodes)

lemma insert_reconciles:
  "open_inodes s ino = Some w \<Longrightarrow>
     fst (record_inode_info_insert s ino a) = w \<and>
     open_inodes (snd (record_inode_info_insert s ino a)) = open_inodes s \<and>
     heap (snd (record_inode_info_insert s ino a)) =
       (heap s)(w := (heap s w)\<lparr>fd_ref := fd_ref (heap s w) + 1\<rparr>) \<and>
     trace (snd (record_inode_info_insert s ino a)) = trace s @ [E_release_inode_info a]"
  by (simp add: record_inode_info_insert_def bump_fd_ref_def emit_def)

text \<open>
  C4. Two threads call \<open>record_inode_info\<close> for the same inode; their allocations
  return two different addresses, neither of which the registry holds. The parts of
  the two calls that run under \<open>open_inodes_lock\<close> (the lookup, the re-check with the
  insertion) and the unlocked construction in between are interleaved in any order
  \<open>sched\<close>. Then at every point a thread that has returned holds the entry that the
  registry has for the inode at that point; once both have returned, they hold the same
  pointer, it is the registry's entry (the one that was there before, or else one of the
  two new objects), no other entry of the registry has changed, and its \<open>fd_ref\<close> has
  grown by 2 (is 2 for a new object). And whenever the re-check under the write lock
  finds an entry, it returns that entry, leaves the registry as it is, bumps the entry's
  \<open>fd_ref\<close> and releases the object just built.
\<close>

theorem one_inode_info_per_inode:
  assumes "a1 \<noteq> a2" "open_inodes s ino \<noteq> Some a1" "open_inodes s ino \<noteq> Some a2"
    and "race_run ino ftype sz a1 a2 sched (RII_start, RII_start, s) = (p1, p2, s')"
  shows "(\<forall>x. p1 = RII_done (Some x) \<or> p2 = RII_done (Some x) \<longrightarrow> open_inodes s' ino = Some x) \<and>
         (\<forall>r1 r2. p1 = RII_done r1 \<and> p2 = RII_done r2 \<longrightarrow>
            (\<exists>w. open_inodes s' = (open_inodes s)(ino \<mapsto> w) \<and> r1 = Some w \<and> r2 = Some w \<and>
              (case open_inodes s ino of
                 Some w0 \<Rightarrow> w = w0 \<and> fd_ref (heap s' w) = fd_ref (heap s w0) + 2
               | None \<Rightarrow> (w = a1 \<or> w = a2) \<and> fd_ref (heap s' w) = 2))) \<and>
         (\<forall>t w a. open_inodes t ino = Some w \<longrightarrow>
              fst (record_inode_info_insert t ino a) = w \<and>
              open_inodes (snd (record_inode_info_insert t ino a)) = open_inodes t \<and>
              heap (snd (record_inode_info_insert t ino a)) =
                (heap t)(w := (heap t w)\<lparr>fd_ref := fd_ref (heap t w) + 1\<rparr>) \<and>
              trace (snd (record_inode_info_insert t ino a)) = trace t @ [E_release_inode_info a])"
proof (intro conjI)
  let ?w0 = "open_inodes s ino"
  let ?r0 = "(case open_inodes s ino of None \<Rightarrow> 0 | Some w \<Rightarrow> fd_ref (heap s w))"
  have r0: "?w0 = None \<longrightarrow> ?r0 = 0" by simp
  have "rii_inv ino a1 a2 ?w0 ?r0 (race_run ino ftype sz a1 a2 sched (RII_start, RII_start, s))"
    using rii_inv_start by (rule rii_inv_run[OF assms(1-3) r0])
  hence inv: "rii_inv ino a1 a2 ?w0 ?r0 (p1, p2, s')"
    unfolding assms(4) .
  show "\<forall>x. p1 = RII_done (Some x) \<or> p2 = RII_done (Some x) \<longrightarrow> open_inodes s' ino = Some x"
    using inv by (auto simp: rii_inv_def rii_returned_def split: option.splits)
  show "\<forall>r1 r2. p1 = RII_done r1 \<and> p2 = RII_done r2 \<longrightarrow>
            (\<exists>w. open_inodes s' = (open_inodes s)(ino \<mapsto> w) \<and> r1 = Some w \<and> r2 = Some w \<and>
              (case open_inodes s ino of
                 Some w0 \<Rightarrow> w = w0 \<and> fd_ref (heap s' w) = fd_ref (heap s w0) + 2
               | None \<Rightarrow> (w = a1 \<or> w = a2) \<and> fd_ref (heap s' w) = 2))"
  proof (intro allI impI)
    fix r1 r2
    assume d: "p1 = RII_done r1 \<and> p2 = RII_done r2"
    have inv': "rii_inv ino a1 a2 ?w0 ?r0 (RII_done r1, RII_done r2, s')"
      using inv d by simp
    have ok: "r1 \<noteq> None" "r2 \<noteq> None"
      using inv' by (auto simp: rii_inv_def rii_pc_ok_def split: option.splits)
    then obtain x1 x2 where x: "r1 = Some x1" "r2 = Some x2" by auto
    have ret: "rii_returned (RII_done r1)" "rii_returned (RII_done r2)"
      using x by (simp_all add: rii_returned_def)
    from inv' ret obtain w where w: "open_inodes s' ino = Some w"
      by (cases "open_inodes s' ino") (auto simp: rii_inv_def)
    have res: "r1 = Some w" "r2 = Some w"
      and cnt: "fd_ref (heap s' w) = ?r0 + 2"
      and who: "?w0 = Some w \<or> (?w0 = None \<and> (w = a1 \<or> w = a2))"
      using inv' ret w by (auto simp: rii_inv_def)
    have others: "\<And>i. i \<noteq> ino \<Longrightarrow> open_inodes s' i = open_inodes s i"
      using race_run_other_inodes[of _ ino ftype sz a1 a2 sched "(RII_start, RII_start, s)"]
      unfolding assms(4) by simp
    have tab: "open_inodes s' = (open_inodes s)(ino \<mapsto> w)"
      using w others by (auto simp: fun_eq_iff)
    have "(case open_inodes s ino of
             Some w0 \<Rightarrow> w = w0 \<and> fd_ref (heap s' w) = fd_ref (heap s w0) + 2
           | None \<Rightarrow> (w = a1 \<or> w = a2) \<and> fd_ref (heap s' w) = 2)"
      using cnt who by (auto split: option.splits)
    with tab res show "\<exists>w. open_inodes s' = (open_inodes s)(ino \<mapsto> w) \<and> r1 = Some w \<and> r2 = Some w \<and>
              (case open_inodes s ino of
                 Some w0 \<Rightarrow> w = w0 \<and> fd_ref (heap s' w) = fd_ref (heap s w0) + 2
               | None \<Rightarrow> (w = a1 \<or> w = a2) \<and> fd_ref (heap s' w) = 2)"
      by blast
  qed
  show "\<forall>t w a. open_inodes t ino = Some w \<longrightarrow>
              fst (record_inode_info_insert t ino a) = w \<and>
              open_inodes (snd (record_inode_info_insert t ino a)) = open_inodes t \<and>
              heap (snd (record_inode_info_insert t ino a)) =
                (heap t)(w := (heap t w)\<lparr>fd_ref := fd_ref (heap t w) + 1\<rparr>) \<and>
              trace (snd (record_inode_info_insert t ino a)) = trace t @ [E_release_inode_info a]"
    using insert_reconciles by blast
qed

text \<open>
  In the example both threads miss in the lookup, both build, and the first inserts
  before the second: both return the first one's object, with \<open>fd_ref\<close> 2, and the
  second one's object is released.
\<close>

lemma race_example:
  "race_run 7 FILE_TYPE_OTHER 10 100 200 [False, True, False, True, False, True]
     (RII_start, RII_start, start_state) =
   (RII_done (Some 100), RII_done (Some 100),
    start_state\<lparr>open_inodes := [7 \<mapsto> 100],
      heap := (\<lambda>a. zero_inode_info)(100 := the_inode\<lparr>fd_ref := 2\<rparr>, 200 := the_inode),
      trace := [E_release_inode_info 200]\<rparr>)"
  by (simp add: race_step_def rii_step_def record_inode_info_find_def record_inode_info_build_def
      record_inode_info_insert_def bump_fd_ref_def emit_def new_inode_info_def Let_def
      start_state_def the_inode_def fun_upd_twist)

theorem one_inode_info_per_inode_witness:
  "(100 :: addr) \<noteq> 200 \<and> open_inodes start_state 7 \<noteq> Some 100 \<and>
   open_inodes start_state 7 \<noteq> Some 200 \<and>
   race_run 7 FILE_TYPE_OTHER 10 100 200 [False, True, False, True, False, True]
     (RII_start, RII_start, start_state) =
   (RII_done (Some 100), RII_done (Some 100),
    start_state\<lparr>open_inodes := [7 \<mapsto> 100],
      heap := (\<lambda>a. zero_inode_info)(100 := the_inode\<lparr>fd_ref := 2\<rparr>, 200 := the_inode),
      trace := [E_release_inode_info 200]\<rparr>) \<and>
   open_inodes (start_state\<lparr>open_inodes := [7 \<mapsto> 100]\<rparr>) = (open_inodes start_state)(7 \<mapsto> 100)"
proof -
  have f: "(100 :: addr) \<noteq> 200" "open_inodes start_state 7 \<noteq> Some 100"
    "open_inodes start_state 7 \<noteq> Some 200"
    by (simp_all add: start_state_def)
  from one_inode_info_per_inode[OF f race_example]
  show ?thesis using f race_example by (auto simp: start_state_def)
qed


section \<open>The socket retry loop is bounded\<close>

lemma send_loop_stop:
  "i < 100 \<Longrightarrow> iovec i \<noteq> - EAGAIN \<Longrightarrow> cfs_socket_send_loop iovec i r = (iovec i, Suc i)"
  by (subst cfs_socket_send_loop.simps) (simp add: CFS_SOCKET_EAGAIN_NUM_def Let_def EAGAIN_def)

lemma send_loop_retry:
  "i < 100 \<Longrightarrow> iovec i = - EAGAIN \<Longrightarrow>
   cfs_socket_send_loop iovec i r = cfs_socket_send_loop iovec (Suc i) (iovec i)"
  by (subst cfs_socket_send_loop.simps) (simp add: CFS_SOCKET_EAGAIN_NUM_def Let_def EAGAIN_def)

lemma send_loop_end:
  "\<not> i < 100 \<Longrightarrow> cfs_socket_send_loop iovec i r = (r, i)"
  by (subst cfs_socket_send_loop.simps) (simp add: CFS_SOCKET_EAGAIN_NUM_def)

lemma retry_inv_step: "retry_inv iovec (Suc i) res \<Longrightarrow> retry_inv iovec i res"
  unfolding retry_inv_def by (elim conjE, intro conjI) (assumption | arith)+

text \<open>Induction on the number \<open>k\<close> of iterations that are left.\<close>

lemma send_loop_inv:
  "k = 100 - i \<Longrightarrow> i < 100 \<Longrightarrow> (\<forall>j<i. iovec j = - EAGAIN) \<Longrightarrow>
   retry_inv iovec i (cfs_socket_send_loop iovec i r)"
proof (induction k arbitrary: i r)
  case 0
  then show ?case by arith
next
  case (Suc k)
  show ?case
  proof (cases "iovec i = - EAGAIN")
    case False
    have e: "cfs_socket_send_loop iovec i r = (iovec i, Suc i)"
      using Suc.prems(2) False by (rule send_loop_stop[of i iovec r])
    show ?thesis
      unfolding e retry_inv_def using Suc.prems(2,3) False by simp
  next
    case True
    have e: "cfs_socket_send_loop iovec i r = cfs_socket_send_loop iovec (Suc i) (iovec i)"
      using Suc.prems(2) True by (rule send_loop_retry[of i iovec r])
    have all: "\<forall>j<Suc i. iovec j = - EAGAIN"
      using Suc.prems(3) True by (simp add: less_Suc_eq)
    show ?thesis
    proof (cases "Suc i < 100")
      case lt: True
      have k: "k = 100 - Suc i" using Suc.prems(1) by arith
      have "retry_inv iovec (Suc i) (cfs_socket_send_loop iovec (Suc i) (iovec i))"
        using k lt all by (rule Suc.IH)
      then show ?thesis
        unfolding e by (rule retry_inv_step)
    next
      case False
      hence i99: "Suc i = 100" using Suc.prems(2) by arith
      have e2: "cfs_socket_send_loop iovec (Suc i) (iovec i) = (iovec i, Suc i)"
        using False by (rule send_loop_end[of "Suc i" iovec "iovec i"])
      have i': "i = 99" using i99 by arith
      show ?thesis
        unfolding e e2 retry_inv_def using all True unfolding i' by simp
    qed
  qed
qed

text \<open>The two loops are the same function of the results of their calls.\<close>

lemma recv_loop_eq_send_loop:
  "cfs_socket_recv_loop iovec i r = cfs_socket_send_loop iovec i r"
proof (induction iovec i r rule: cfs_socket_recv_loop.induct)
  case (1 iovec i r)
  show ?case
    apply (subst cfs_socket_recv_loop.simps)
    apply (subst cfs_socket_send_loop.simps)
    using 1 apply (simp add: Let_def)
    done
qed

lemma retry_inv_bounded:
  assumes "retry_inv iovec 0 (r, n)"
  shows "bounded_retry iovec \<lparr>ret = r, calls = n, logged = (r < 0)\<rparr>"
proof -
  from assms have a: "0 < n" and b: "n \<le> 100" and c: "r = iovec (n - 1)"
    and d: "\<forall>j < n - 1. iovec j = - EAGAIN" and e: "r = - EAGAIN \<longrightarrow> n = 100"
    unfolding retry_inv_def fst_conv snd_conv by blast+
  from a have a': "1 \<le> n" by arith
  show ?thesis
    unfolding bounded_retry_def sock_result.select_convs
    using a' b c d e by blast
qed

lemma cfs_socket_send_bounded: "bounded_retry iovec (cfs_socket_send iovec u)"
proof -
  obtain r n where rn: "cfs_socket_send_loop iovec 0 u = (r, n)"
    by (cases "cfs_socket_send_loop iovec 0 u")
  have "retry_inv iovec 0 (cfs_socket_send_loop iovec 0 u)"
    by (rule send_loop_inv[of 100 0 iovec u]) simp_all
  hence "retry_inv iovec 0 (r, n)" unfolding rn .
  hence "bounded_retry iovec \<lparr>ret = r, calls = n, logged = (r < 0)\<rparr>"
    by (rule retry_inv_bounded)
  thus ?thesis unfolding cfs_socket_send_def rn by simp
qed

lemma cfs_socket_recv_bounded: "bounded_retry iovec (cfs_socket_recv iovec u)"
proof -
  have "cfs_socket_recv iovec u = cfs_socket_send iovec u"
    unfolding cfs_socket_recv_def cfs_socket_send_def recv_loop_eq_send_loop ..
  thus ?thesis using cfs_socket_send_bounded[of iovec u] by simp
qed

lemma send_loop_example:
  "cfs_socket_send_loop (\<lambda>i. if i < 3 then - 11 else 42) 0 0 = (42, 4)"
  by (simp add: send_loop_retry send_loop_stop EAGAIN_def)

text \<open>
  C9. Every \<open>cfs_socket_send\<close> and \<open>cfs_socket_recv\<close> returns, whatever the underlying
  calls answer (both are total functions of those answers), after at least one and at
  most 100 calls; a call that answered \<open>-EAGAIN\<close> was followed at once by the next one
  (all calls before the last answered \<open>-EAGAIN\<close>); the value returned is the answer of
  the last call, and it is \<open>-EAGAIN\<close> only if all 100 calls were used up.
\<close>

theorem socket_retry_bounded:
  "bounded_retry snd_iovec (cfs_socket_send snd_iovec u) \<and>
   bounded_retry rcv_iovec (cfs_socket_recv rcv_iovec v)"
  using cfs_socket_send_bounded[of snd_iovec u] cfs_socket_recv_bounded[of rcv_iovec v]
  by (rule conjI)

theorem socket_retry_bounded_witness:
  "cfs_socket_send (\<lambda>i. if i < 3 then - 11 else 42) 0 = \<lparr>ret = 42, calls = 4, logged = False\<rparr> \<and>
   cfs_socket_recv (\<lambda>i. if i < 3 then - 11 else 42) 0 = \<lparr>ret = 42, calls = 4, logged = False\<rparr> \<and>
   bounded_retry (\<lambda>i. if i < 3 then - 11 else 42) \<lparr>ret = 42, calls = 4, logged = False\<rparr>"
  using socket_retry_bounded[of "\<lambda>i. if i < 3 then - 11 else 42" 0 "\<lambda>i. if i < 3 then - 11 else 42" 0]
  by (simp add: cfs_socket_send_def cfs_socket_recv_def recv_loop_eq_send_loop send_loop_example)


end
